theory Spec2Isabelle
  imports Complex_Main "HOL-Library.Sublist"
begin

section \<open>JavaScript values and built-ins\<close>

text \<open>
  A JavaScript number that holds a GPA: a binary64 value, kept as the rational it denotes
  (\<open>Fin\<close>, with \<open>-0\<close> identified with \<open>0\<close>), an infinity or \<open>NaN\<close>.
\<close>

datatype jsnum = NaN | Fin rat | PosInfinity | NegInfinity

text \<open>The relational operator \<^verbatim>\<open><\<close> on numbers: false as soon as an operand is \<open>NaN\<close>.\<close>

fun js_less :: "jsnum \<Rightarrow> jsnum \<Rightarrow> bool" where
  "js_less NaN y = False"
| "js_less x NaN = False"
| "js_less (Fin a) (Fin b) = (a < b)"
| "js_less (Fin a) PosInfinity = True"
| "js_less (Fin a) NegInfinity = False"
| "js_less PosInfinity y = False"
| "js_less NegInfinity NegInfinity = False"
| "js_less NegInfinity y = True"

definition isNaN :: "jsnum \<Rightarrow> bool" where
  "isNaN x = (x = NaN)"

text \<open>
  What a \<^verbatim>\<open>catch\<close> clause receives: an \<^verbatim>\<open>Error\<close> object with its message (what axios rejects
  with, and what a failed property access throws), or any other thrown value.
\<close>

datatype thrown = Error string | NotAnError

text \<open>
  White space as \<^verbatim>\<open>trim\<close> and \<^verbatim>\<open>parseFloat\<close> strip it, over the ASCII characters: tab,
  line feed, vertical tab, form feed, carriage return and space.
\<close>

definition isWhiteSpace :: "char \<Rightarrow> bool" where
  "isWhiteSpace c = (of_char c \<in> set [9, 10, 11, 12, 13, 32 :: nat])"

definition trimStart :: "string \<Rightarrow> string" where
  "trimStart s = dropWhile isWhiteSpace s"

definition trim :: "string \<Rightarrow> string" where
  "trim s = rev (dropWhile isWhiteSpace (rev (trimStart s)))"

definition isDigit :: "char \<Rightarrow> bool" where
  "isDigit c = (48 \<le> (of_char c :: nat) \<and> (of_char c :: nat) \<le> 57)"

definition decimalValue :: "string \<Rightarrow> int" where
  "decimalValue ds = foldl (\<lambda>a c. 10 * a + (of_char c - 48)) 0 ds"

definition pow10 :: "int \<Rightarrow> rat" where
  "pow10 e = (if 0 \<le> e then 10 ^ nat e else 1 / 10 ^ nat (- e))"

definition pow2 :: "int \<Rightarrow> rat" where
  "pow2 e = (if 0 \<le> e then 2 ^ nat e else 1 / 2 ^ nat (- e))"

text \<open>
  A sign followed by at least one digit, at the head of the string: its value, and the
  rest of the string.
\<close>

definition signedInteger :: "string \<Rightarrow> (int \<times> string) option" where
  "signedInteger s =
     (let neg = (s \<noteq> [] \<and> hd s = CHR ''-'');
          r = (if s \<noteq> [] \<and> (hd s = CHR ''-'' \<or> hd s = CHR ''+'') then tl s else s);
          ds = takeWhile isDigit r
      in if ds = [] then None
         else Some (if neg then - decimalValue ds else decimalValue ds, dropWhile isDigit r))"

text \<open>
  The exponent part at the head of the string and the rest of the string; exponent 0 and
  the whole string when there is none.
\<close>

definition exponentPart :: "string \<Rightarrow> int \<times> string" where
  "exponentPart s =
     (if s \<noteq> [] \<and> (hd s = CHR ''e'' \<or> hd s = CHR ''E'')
      then (case signedInteger (tl s) of None \<Rightarrow> (0, s) | Some er \<Rightarrow> er)
      else (0, s))"

text \<open>
  The longest prefix of the string that is an unsigned decimal literal of ECMAScript
  (\<^verbatim>\<open>Infinity\<close>, \<^verbatim>\<open>digits . digits? exp?\<close>, \<^verbatim>\<open>. digits exp?\<close>, \<^verbatim>\<open>digits exp?\<close>), as its
  mathematical value, and what follows the prefix.
\<close>

datatype literal = NoLiteral | InfinityLiteral | DecimalLiteral rat

definition strUnsignedDecimalLiteral :: "string \<Rightarrow> literal \<times> string" where
  "strUnsignedDecimalLiteral s =
     (if prefix ''Infinity'' s then (InfinityLiteral, drop 8 s)
      else
        let ip = takeWhile isDigit s; r = dropWhile isDigit s in
        if r \<noteq> [] \<and> hd r = CHR ''.''
        then
          (let fp = takeWhile isDigit (tl r); ex = exponentPart (dropWhile isDigit (tl r)) in
           if ip = [] \<and> fp = [] then (NoLiteral, s)
           else (DecimalLiteral
                   (of_int (decimalValue (ip @ fp)) * pow10 (fst ex - int (length fp))),
                 snd ex))
        else if ip = [] then (NoLiteral, s)
        else (let ex = exponentPart r
              in (DecimalLiteral (of_int (decimalValue ip) * pow10 (fst ex)), snd ex)))"

text \<open>
  Rounding of a mathematical value to binary64, to nearest with ties to even: 53
  significant bits, exponents from \<open>-1022\<close> (below it the spacing stays \<open>2^-1074\<close>), and
  an infinity from \<open>2^1024\<close> on.
\<close>

function bitLength :: "int \<Rightarrow> int" where
  "bitLength n = (if n \<le> 0 then 0 else 1 + bitLength (n div 2))"
  by pat_completeness auto
termination
  by (relation "measure nat") auto

declare bitLength.simps [simp del]

definition floorLog2 :: "rat \<Rightarrow> int" where
  "floorLog2 q =
     (let e = bitLength (fst (quotient_of q)) - bitLength (snd (quotient_of q))
      in if pow2 e \<le> q then e else e - 1)"

definition roundTiesToEven :: "rat \<Rightarrow> int" where
  "roundTiesToEven x =
     (let f = \<lfloor>x\<rfloor>; d = x - of_int f
      in if d < 1 / 2 then f else if 1 / 2 < d then f + 1 else if even f then f else f + 1)"

definition toBinary64 :: "rat \<Rightarrow> jsnum" where
  "toBinary64 q =
     (if q = 0 then Fin 0
      else
        let a = \<bar>q\<bar>;
            e = max (floorLog2 a) (- 1022);
            u = pow2 (e - 52);
            r = of_int (roundTiesToEven (a / u)) * u
        in if pow2 1024 \<le> r then (if q < 0 then NegInfinity else PosInfinity)
           else Fin (if q < 0 then - r else r))"

text \<open>
  \<^verbatim>\<open>parseFloat\<close>: leading white space is skipped, then a sign and the longest decimal
  literal are read; \<open>NaN\<close> when no literal starts there. What follows the literal is
  ignored.
\<close>

definition parseFloat :: "string \<Rightarrow> jsnum" where
  "parseFloat inputString =
     (let t = trimStart inputString;
          neg = (t \<noteq> [] \<and> hd t = CHR ''-'');
          u = (if t \<noteq> [] \<and> (hd t = CHR ''-'' \<or> hd t = CHR ''+'') then tl t else t)
      in case fst (strUnsignedDecimalLiteral u) of
           NoLiteral \<Rightarrow> NaN
         | InfinityLiteral \<Rightarrow> (if neg then NegInfinity else PosInfinity)
         | DecimalLiteral q \<Rightarrow> toBinary64 (if neg then - q else q))"

text \<open>
  \<^verbatim>\<open>Number.prototype.toString\<close> on an integer: the decimal digits, with a minus sign for
  a negative one.
\<close>

fun digits :: "nat \<Rightarrow> string" where
  "digits n = (if n < 10 then [''0123456789'' ! n] else digits (n div 10) @ [''0123456789'' ! (n mod 10)])"

declare digits.simps [simp del]

definition toString :: "int \<Rightarrow> string" where
  "toString n = (if n < 0 then CHR ''-'' # digits (nat (- n)) else digits (nat n))"

text \<open>
  The host functions this development takes as given: the collation behind
  \<^verbatim>\<open>String.prototype.localeCompare\<close> (negative, zero or positive), and the decimal
  rendering of a number that is not an integer identifier (\<^verbatim>\<open>String(x)\<close> on a number).
\<close>

record host =
  localeCompare :: "string \<Rightarrow> string \<Rightarrow> int"
  numberToString :: "jsnum \<Rightarrow> string"

section \<open>Data model (frontend/src/types/student.ts)\<close>

text \<open>
  The TypeScript interfaces of \<^verbatim>\<open>types/student.ts\<close>. The numeric fields \<^verbatim>\<open>class\<close>,
  \<^verbatim>\<open>age\<close> and \<^verbatim>\<open>siblings\<close> are integers: the form fills them with \<^verbatim>\<open>parseInt\<close> of a
  select or number input (\<^verbatim>\<open>parseInt(v) || 0\<close>), and the store keeps them in integer
  columns. Strings are lists of 8-bit characters. The field names \<^verbatim>\<open>id\<close> and \<^verbatim>\<open>class\<close>
  carry a prime, since \<open>id\<close> is a constant of HOL and \<open>class\<close> a keyword.
\<close>

datatype sex = male | female

text \<open>\<^verbatim>\<open>CreateStudentRequest\<close> (and \<^verbatim>\<open>UpdateStudentRequest\<close>, which extends it with nothing).\<close>

record CreateStudentRequest =
  name :: string
  class' :: int
  sex :: sex
  age :: int
  siblings :: int
  gpa :: string

text \<open>\<^verbatim>\<open>Student\<close>: the same fields and the identifier.\<close>

record Student = CreateStudentRequest +
  id' :: string

record StudentState =
  students :: "Student list"
  recentLookup :: "Student option"
  loading :: bool
  error :: "string option"

datatype direction = asc | desc

datatype sort_key = key_id | key_name | key_class | key_sex | key_age | key_siblings | key_gpa

record SortConfig =
  key :: sort_key
  direction :: direction

section \<open>The record store and the transform layer (frontend/src/services/studentService.ts)\<close>

text \<open>
  \<^verbatim>\<open>BackendStudent\<close>, the wire record: its fields carry the prefix \<open>w_\<close> here, and the
  GPA is a number or a string.
\<close>

datatype wire_gpa = GpaNumber jsnum | GpaString string

record BackendStudent =
  uuid :: int
  w_name :: string
  w_class :: int
  w_sex :: sex
  w_age :: int
  w_siblings :: int
  w_gpa :: wire_gpa

text \<open>The object that \<^verbatim>\<open>transformStudentToBackend\<close> builds (fields with the prefix \<open>d_\<close>).\<close>

record wire_draft =
  d_name :: string
  d_class :: int
  d_sex :: sex
  d_age :: int
  d_siblings :: int
  d_gpa :: jsnum

text \<open>\<^verbatim>\<open>String(x)\<close> on a GPA of the wire: a string is kept, a number is rendered by the host.\<close>

definition String_of :: "host \<Rightarrow> wire_gpa \<Rightarrow> string" where
  "String_of h g = (case g of GpaString t \<Rightarrow> t | GpaNumber n \<Rightarrow> numberToString h n)"

definition transformStudentFromBackend :: "host \<Rightarrow> BackendStudent \<Rightarrow> Student" where
  "transformStudentFromBackend h backendStudent =
     \<lparr>name = w_name backendStudent,
      class' = w_class backendStudent,
      sex = w_sex backendStudent,
      age = w_age backendStudent,
      siblings = w_siblings backendStudent,
      gpa = String_of h (w_gpa backendStudent),
      id' = toString (uuid backendStudent)\<rparr>"

definition transformStudentToBackend :: "CreateStudentRequest \<Rightarrow> wire_draft" where
  "transformStudentToBackend studentData =
     \<lparr>d_name = name studentData,
      d_class = class' studentData,
      d_sex = sex studentData,
      d_age = age studentData,
      d_siblings = siblings studentData,
      d_gpa = parseFloat (gpa studentData)\<rparr>"

text \<open>
  The five endpoints that the axios instance reaches, over a state \<open>'w\<close> of the world
  outside (the remote store and whatever else a request can observe or change). A request
  either throws (\<open>Inl\<close>: a network error, a status outside 2xx, a body that cannot be
  read) or returns its body, and leaves the world in a new state. The response
  interceptor only logs an error and rejects with it again.
\<close>

record 'w api =
  GET_students :: "'w \<Rightarrow> (thrown + BackendStudent list) \<times> 'w"
  GET_student :: "string \<Rightarrow> 'w \<Rightarrow> (thrown + BackendStudent) \<times> 'w"
  POST_student :: "wire_draft \<Rightarrow> 'w \<Rightarrow> (thrown + int) \<times> 'w"
  PUT_student :: "string \<Rightarrow> wire_draft \<Rightarrow> 'w \<Rightarrow> (thrown + unit) \<times> 'w"
  DELETE_student :: "string \<Rightarrow> 'w \<Rightarrow> (thrown + unit) \<times> 'w"

definition studentService_getAllStudents ::
  "host \<Rightarrow> 'w api \<Rightarrow> 'w \<Rightarrow> (thrown + Student list) \<times> 'w" where
  "studentService_getAllStudents h a w =
     (case GET_students a w of
        (Inl e, w') \<Rightarrow> (Inl e, w')
      | (Inr backendStudents, w') \<Rightarrow> (Inr (map (transformStudentFromBackend h) backendStudents), w'))"

definition studentService_getStudentById ::
  "host \<Rightarrow> 'w api \<Rightarrow> string \<Rightarrow> 'w \<Rightarrow> (thrown + Student) \<times> 'w" where
  "studentService_getStudentById h a i w =
     (case GET_student a i w of
        (Inl e, w') \<Rightarrow> (Inl e, w')
      | (Inr backendStudent, w') \<Rightarrow> (Inr (transformStudentFromBackend h backendStudent), w'))"

text \<open>
  \<^verbatim>\<open>createStudent\<close>: the POST answers with the new identifier only; the created student
  is then fetched by that identifier.
\<close>

definition studentService_createStudent ::
  "host \<Rightarrow> 'w api \<Rightarrow> CreateStudentRequest \<Rightarrow> 'w \<Rightarrow> (thrown + Student) \<times> 'w" where
  "studentService_createStudent h a studentData w =
     (let backendData = transformStudentToBackend studentData in
      case POST_student a backendData w of
        (Inl e, w1) \<Rightarrow> (Inl e, w1)
      | (Inr createdUuid, w1) \<Rightarrow> studentService_getStudentById h a (toString createdUuid) w1)"

definition studentService_updateStudent ::
  "host \<Rightarrow> 'w api \<Rightarrow> string \<Rightarrow> CreateStudentRequest \<Rightarrow> 'w \<Rightarrow> (thrown + Student) \<times> 'w" where
  "studentService_updateStudent h a i studentData w =
     (let backendData = transformStudentToBackend studentData in
      case PUT_student a i backendData w of
        (Inl e, w1) \<Rightarrow> (Inl e, w1)
      | (Inr u, w1) \<Rightarrow> studentService_getStudentById h a i w1)"

definition studentService_deleteStudent ::
  "'w api \<Rightarrow> string \<Rightarrow> 'w \<Rightarrow> (thrown + unit) \<times> 'w" where
  "studentService_deleteStudent a i w = DELETE_student a i w"

section \<open>The data view state (store/studentSlice.ts, the last part of start-app.sh)\<close>

definition initialState :: StudentState where
  "initialState = \<lparr>students = [], recentLookup = None, loading = False, error = None\<rparr>"

text \<open>
  The actions the slice handles: the three lifecycle actions of each of the five thunks,
  with their payloads, and the two plain reducers.
\<close>

datatype action =
    fetchStudents_pending
  | fetchStudents_fulfilled "Student list"
  | fetchStudents_rejected string
  | fetchStudentById_pending
  | fetchStudentById_fulfilled Student
  | fetchStudentById_rejected string
  | createStudent_pending
  | createStudent_fulfilled Student
  | createStudent_rejected string
  | updateStudent_pending
  | updateStudent_fulfilled Student
  | updateStudent_rejected string
  | deleteStudent_pending
  | deleteStudent_fulfilled string
  | deleteStudent_rejected string
  | setRecentLookup Student
  | clearError

text \<open>\<^verbatim>\<open>Array.prototype.findIndex\<close>: the first index whose element satisfies \<open>P\<close>, or \<open>-1\<close>.\<close>

fun findIndex_from :: "('a \<Rightarrow> bool) \<Rightarrow> 'a list \<Rightarrow> int \<Rightarrow> int" where
  "findIndex_from P [] k = - 1"
| "findIndex_from P (x # xs) k = (if P x then k else findIndex_from P xs (k + 1))"

definition findIndex :: "('a \<Rightarrow> bool) \<Rightarrow> 'a list \<Rightarrow> int" where
  "findIndex P xs = findIndex_from P xs 0"

text \<open>The position that \<^verbatim>\<open>findIndex\<close> returns when some element satisfies \<open>P\<close>.\<close>

definition first_index :: "('a \<Rightarrow> bool) \<Rightarrow> 'a list \<Rightarrow> nat" where
  "first_index P xs = length (takeWhile (\<lambda>x. \<not> P x) xs)"

fun studentSlice_reducer :: "StudentState \<Rightarrow> action \<Rightarrow> StudentState" where
  "studentSlice_reducer state (setRecentLookup p) = state\<lparr>recentLookup := Some p\<rparr>"
| "studentSlice_reducer state clearError = state\<lparr>error := None\<rparr>"
| "studentSlice_reducer state fetchStudents_pending = state\<lparr>loading := True, error := None\<rparr>"
| "studentSlice_reducer state (fetchStudents_fulfilled p) = state\<lparr>loading := False, students := p\<rparr>"
| "studentSlice_reducer state (fetchStudents_rejected p) = state\<lparr>loading := False, error := Some p\<rparr>"
| "studentSlice_reducer state fetchStudentById_pending = state\<lparr>loading := True, error := None\<rparr>"
| "studentSlice_reducer state (fetchStudentById_fulfilled p) =
     state\<lparr>loading := False, recentLookup := Some p\<rparr>"
| "studentSlice_reducer state (fetchStudentById_rejected p) = state\<lparr>loading := False, error := Some p\<rparr>"
| "studentSlice_reducer state createStudent_pending = state\<lparr>loading := True, error := None\<rparr>"
| "studentSlice_reducer state (createStudent_fulfilled p) =
     state\<lparr>loading := False, students := students state @ [p]\<rparr>"
| "studentSlice_reducer state (createStudent_rejected p) = state\<lparr>loading := False, error := Some p\<rparr>"
| "studentSlice_reducer state updateStudent_pending = state\<lparr>loading := True, error := None\<rparr>"
| "studentSlice_reducer state (updateStudent_fulfilled p) =
     (let index = findIndex (\<lambda>s. id' s = id' p) (students state) in
      if index \<noteq> - 1
      then state\<lparr>loading := False, students := (students state)[nat index := p]\<rparr>
      else state\<lparr>loading := False\<rparr>)"
| "studentSlice_reducer state (updateStudent_rejected p) = state\<lparr>loading := False, error := Some p\<rparr>"
| "studentSlice_reducer state deleteStudent_pending = state\<lparr>loading := True, error := None\<rparr>"
| "studentSlice_reducer state (deleteStudent_fulfilled p) =
     state\<lparr>loading := False, students := filter (\<lambda>s. id' s \<noteq> p) (students state)\<rparr>"
| "studentSlice_reducer state (deleteStudent_rejected p) = state\<lparr>loading := False, error := Some p\<rparr>"

text \<open>The state after a sequence of actions, dispatched one after the other.\<close>

definition dispatch_all :: "StudentState \<Rightarrow> action list \<Rightarrow> StudentState" where
  "dispatch_all state acts = foldl studentSlice_reducer state acts"

text \<open>
  \<^verbatim>\<open>rejectWithValue(error instanceof Error ? error.message : fallback)\<close>: the payload of
  a rejected action.
\<close>

definition rejectWithValue :: "thrown \<Rightarrow> string \<Rightarrow> string" where
  "rejectWithValue e fallback = (case e of Error m \<Rightarrow> m | NotAnError \<Rightarrow> fallback)"

text \<open>
  The thunks. \<^verbatim>\<open>createAsyncThunk\<close> dispatches the pending action, runs the payload creator
  against the store, and dispatches the fulfilled or the rejected action with what it
  returned. Each thunk is given here by the action that completes it (with the world
  after its requests) and by its run from start to end with nothing dispatched in
  between.
\<close>

definition fetchStudents_completion :: "host \<Rightarrow> 'w api \<Rightarrow> 'w \<Rightarrow> action \<times> 'w" where
  "fetchStudents_completion h a w =
     (case studentService_getAllStudents h a w of
        (Inr r, w') \<Rightarrow> (fetchStudents_fulfilled r, w')
      | (Inl e, w') \<Rightarrow> (fetchStudents_rejected (rejectWithValue e ''Failed to fetch students''), w'))"

definition fetchStudentById_completion :: "host \<Rightarrow> 'w api \<Rightarrow> string \<Rightarrow> 'w \<Rightarrow> action \<times> 'w" where
  "fetchStudentById_completion h a i w =
     (case studentService_getStudentById h a i w of
        (Inr r, w') \<Rightarrow> (fetchStudentById_fulfilled r, w')
      | (Inl e, w') \<Rightarrow> (fetchStudentById_rejected (rejectWithValue e ''Failed to fetch student''), w'))"

definition createStudent_completion ::
  "host \<Rightarrow> 'w api \<Rightarrow> CreateStudentRequest \<Rightarrow> 'w \<Rightarrow> action \<times> 'w" where
  "createStudent_completion h a studentData w =
     (case studentService_createStudent h a studentData w of
        (Inr r, w') \<Rightarrow> (createStudent_fulfilled r, w')
      | (Inl e, w') \<Rightarrow> (createStudent_rejected (rejectWithValue e ''Failed to create student''), w'))"

definition updateStudent_completion ::
  "host \<Rightarrow> 'w api \<Rightarrow> string \<Rightarrow> CreateStudentRequest \<Rightarrow> 'w \<Rightarrow> action \<times> 'w" where
  "updateStudent_completion h a i studentData w =
     (case studentService_updateStudent h a i studentData w of
        (Inr r, w') \<Rightarrow> (updateStudent_fulfilled r, w')
      | (Inl e, w') \<Rightarrow> (updateStudent_rejected (rejectWithValue e ''Failed to update student''), w'))"

definition deleteStudent_completion :: "'w api \<Rightarrow> string \<Rightarrow> 'w \<Rightarrow> action \<times> 'w" where
  "deleteStudent_completion a i w =
     (case studentService_deleteStudent a i w of
        (Inr u, w') \<Rightarrow> (deleteStudent_fulfilled i, w')
      | (Inl e, w') \<Rightarrow> (deleteStudent_rejected (rejectWithValue e ''Failed to delete student''), w'))"

definition run_thunk :: "action \<Rightarrow> ('w \<Rightarrow> action \<times> 'w) \<Rightarrow> StudentState \<times> 'w \<Rightarrow> StudentState \<times> 'w" where
  "run_thunk pending completion sw =
     (let s1 = studentSlice_reducer (fst sw) pending;
          r = completion (snd sw)
      in (studentSlice_reducer s1 (fst r), snd r))"

definition fetchStudents :: "host \<Rightarrow> 'w api \<Rightarrow> StudentState \<times> 'w \<Rightarrow> StudentState \<times> 'w" where
  "fetchStudents h a = run_thunk fetchStudents_pending (fetchStudents_completion h a)"

definition fetchStudentById ::
  "host \<Rightarrow> 'w api \<Rightarrow> string \<Rightarrow> StudentState \<times> 'w \<Rightarrow> StudentState \<times> 'w" where
  "fetchStudentById h a i = run_thunk fetchStudentById_pending (fetchStudentById_completion h a i)"

definition createStudent ::
  "host \<Rightarrow> 'w api \<Rightarrow> CreateStudentRequest \<Rightarrow> StudentState \<times> 'w \<Rightarrow> StudentState \<times> 'w" where
  "createStudent h a studentData =
     run_thunk createStudent_pending (createStudent_completion h a studentData)"

definition updateStudent ::
  "host \<Rightarrow> 'w api \<Rightarrow> string \<Rightarrow> CreateStudentRequest \<Rightarrow> StudentState \<times> 'w \<Rightarrow> StudentState \<times> 'w" where
  "updateStudent h a i studentData =
     run_thunk updateStudent_pending (updateStudent_completion h a i studentData)"

definition deleteStudent :: "'w api \<Rightarrow> string \<Rightarrow> StudentState \<times> 'w \<Rightarrow> StudentState \<times> 'w" where
  "deleteStudent a i = run_thunk deleteStudent_pending (deleteStudent_completion a i)"

section \<open>The form (frontend/src/components/StudentForm.tsx)\<close>

text \<open>
  \<^verbatim>\<open>newErrors\<close>, the object that \<^verbatim>\<open>validateForm\<close> fills: one optional message per field
  (fields with the prefix \<open>e_\<close>).
\<close>

record form_errors =
  e_name :: "string option"
  e_class :: "string option"
  e_age :: "string option"
  e_siblings :: "string option"
  e_gpa :: "string option"

definition newErrors :: "CreateStudentRequest \<Rightarrow> form_errors" where
  "newErrors formData =
     \<lparr>e_name = (if trim (name formData) = [] then Some ''Name is required'' else None),
      e_class = (if class' formData < 1 \<or> class' formData > 12
                 then Some ''Class must be between 1 and 12'' else None),
      e_age = (if age formData < 1 \<or> age formData > 100
               then Some ''Age must be between 1 and 100'' else None),
      e_siblings = (if siblings formData < 0 \<or> siblings formData > 20
                    then Some ''Siblings must be between 0 and 20'' else None),
      e_gpa = (if trim (gpa formData) = [] then Some ''GPA is required''
               else
                 let gpaNum = parseFloat (gpa formData) in
                 if isNaN gpaNum \<or> js_less gpaNum (Fin 0) \<or> js_less (Fin 10) gpaNum
                 then Some ''GPA must be a number between 0 and 10'' else None)\<rparr>"

text \<open>\<^verbatim>\<open>Object.keys(newErrors).length === 0\<close>: no field has a message.\<close>

definition validateForm :: "CreateStudentRequest \<Rightarrow> bool" where
  "validateForm formData =
     (let errs = newErrors formData
      in e_name errs = None \<and> e_class errs = None \<and> e_age errs = None
         \<and> e_siblings errs = None \<and> e_gpa errs = None)"

text \<open>
  \<^verbatim>\<open>handleSubmit\<close>: the callback \<^verbatim>\<open>onSubmit\<close> is called with the form data when the form
  is valid, and not at all otherwise. The callback acts on whatever state \<open>'x\<close> its owner
  holds.
\<close>

definition handleSubmit ::
  "(CreateStudentRequest \<Rightarrow> 'x \<Rightarrow> 'x) \<Rightarrow> CreateStudentRequest \<Rightarrow> 'x \<Rightarrow> 'x" where
  "handleSubmit onSubmit formData x = (if validateForm formData then onSubmit formData x else x)"

section \<open>The students page (pages/StudentsPage.tsx, unnamed/part_002)\<close>

text \<open>
  \<^verbatim>\<open>handleFormSubmit\<close>, the \<^verbatim>\<open>onSubmit\<close> of the form on this page: an update of the
  student being edited, or a creation. What it does to the page's own state afterwards
  (closing the form) is left out.
\<close>

definition handleFormSubmit ::
  "host \<Rightarrow> 'w api \<Rightarrow> Student option \<Rightarrow> CreateStudentRequest
     \<Rightarrow> StudentState \<times> 'w \<Rightarrow> StudentState \<times> 'w" where
  "handleFormSubmit h a editingStudent studentData =
     (case editingStudent of
        Some st \<Rightarrow> updateStudent h a (id' st) studentData
      | None \<Rightarrow> createStudent h a studentData)"

text \<open>
  \<^verbatim>\<open>FilterConfig\<close> (fields with the prefix \<open>f_\<close>): every field may be undefined (\<open>None\<close>);
  the sex filter may also be the empty string.
\<close>

datatype sex_filter = sex_empty | sex_is sex

record FilterConfig =
  f_name :: "string option"
  f_class :: "int option"
  f_sex :: "sex_filter option"
  f_minAge :: "int option"
  f_maxAge :: "int option"

text \<open>The filters the page starts with, and returns to with \<^verbatim>\<open>clearFilters\<close>.\<close>

definition initialFilters :: FilterConfig where
  "initialFilters =
     \<lparr>f_name = Some [], f_class = None, f_sex = Some sex_empty, f_minAge = None, f_maxAge = None\<rparr>"

text \<open>\<^verbatim>\<open>toLowerCase\<close>, on the ASCII letters.\<close>

definition toLowerCase :: "string \<Rightarrow> string" where
  "toLowerCase s =
     map (\<lambda>c. if 65 \<le> (of_char c :: nat) \<and> (of_char c :: nat) \<le> 90
              then char_of ((of_char c :: nat) + 32) else c) s"

text \<open>\<^verbatim>\<open>s.includes(t)\<close>: \<open>t\<close> occurs in \<open>s\<close> as a contiguous run.\<close>

definition String_includes :: "string \<Rightarrow> string \<Rightarrow> bool" where
  "String_includes s t = sublist t s"

text \<open>
  The four matches of the filter callback. \<^verbatim>\<open>!x || e\<close> is true without looking at \<open>e\<close>
  when \<open>x\<close> is undefined, the empty string or the number 0.
\<close>

definition nameMatch :: "FilterConfig \<Rightarrow> Student \<Rightarrow> bool" where
  "nameMatch filters student =
     (case f_name filters of
        None \<Rightarrow> True
      | Some n \<Rightarrow> n = [] \<or> String_includes (toLowerCase (name student)) (toLowerCase n))"

definition classMatch :: "FilterConfig \<Rightarrow> Student \<Rightarrow> bool" where
  "classMatch filters student =
     (case f_class filters of
        None \<Rightarrow> True
      | Some c \<Rightarrow> c = 0 \<or> class' student = c)"

definition sexMatch :: "FilterConfig \<Rightarrow> Student \<Rightarrow> bool" where
  "sexMatch filters student =
     (case f_sex filters of
        None \<Rightarrow> True
      | Some sex_empty \<Rightarrow> True
      | Some (sex_is x) \<Rightarrow> sex student = x)"

definition ageMatch :: "FilterConfig \<Rightarrow> Student \<Rightarrow> bool" where
  "ageMatch filters student =
     ((case f_minAge filters of None \<Rightarrow> True | Some lo \<Rightarrow> lo = 0 \<or> age student \<ge> lo)
      \<and> (case f_maxAge filters of None \<Rightarrow> True | Some hi \<Rightarrow> hi = 0 \<or> age student \<le> hi))"

definition filterPredicate :: "FilterConfig \<Rightarrow> Student \<Rightarrow> bool" where
  "filterPredicate filters student =
     (nameMatch filters student \<and> classMatch filters student
      \<and> sexMatch filters student \<and> ageMatch filters student)"

text \<open>
  The value \<^verbatim>\<open>a[sortConfig.key]\<close>: a string for \<^verbatim>\<open>id\<close>, \<^verbatim>\<open>name\<close>, \<^verbatim>\<open>sex\<close> and \<^verbatim>\<open>gpa\<close>, a
  number for \<^verbatim>\<open>class\<close>, \<^verbatim>\<open>age\<close> and \<^verbatim>\<open>siblings\<close>.
\<close>

datatype field_value = StringValue string | NumberValue int

definition sex_string :: "sex \<Rightarrow> string" where
  "sex_string x = (case x of male \<Rightarrow> ''male'' | female \<Rightarrow> ''female'')"

definition field_of :: "sort_key \<Rightarrow> Student \<Rightarrow> field_value" where
  "field_of k a =
     (case k of
        key_id \<Rightarrow> StringValue (id' a)
      | key_name \<Rightarrow> StringValue (name a)
      | key_class \<Rightarrow> NumberValue (class' a)
      | key_sex \<Rightarrow> StringValue (sex_string (sex a))
      | key_age \<Rightarrow> NumberValue (age a)
      | key_siblings \<Rightarrow> NumberValue (siblings a)
      | key_gpa \<Rightarrow> StringValue (gpa a))"

text \<open>The comparator passed to \<^verbatim>\<open>filtered.sort\<close>.\<close>

definition compareStudents :: "host \<Rightarrow> SortConfig \<Rightarrow> Student \<Rightarrow> Student \<Rightarrow> int" where
  "compareStudents h sortConfig a b =
     (case (field_of (key sortConfig) a, field_of (key sortConfig) b) of
        (StringValue aValue, StringValue bValue) \<Rightarrow>
          (if direction sortConfig = asc
           then localeCompare h aValue bValue
           else localeCompare h bValue aValue)
      | (NumberValue aValue, NumberValue bValue) \<Rightarrow>
          (if direction sortConfig = asc then aValue - bValue else bValue - aValue)
      | _ \<Rightarrow> 0)"

text \<open>
  \<^verbatim>\<open>Array.prototype.sort\<close> with a comparator, which ECMAScript requires to be stable: an
  insertion sort that keeps elements the comparator calls equal in their order.
\<close>

fun insert_by :: "('a \<Rightarrow> 'a \<Rightarrow> int) \<Rightarrow> 'a \<Rightarrow> 'a list \<Rightarrow> 'a list" where
  "insert_by cmp x [] = [x]"
| "insert_by cmp x (y # ys) = (if cmp x y \<le> 0 then x # y # ys else y # insert_by cmp x ys)"

definition Array_sort :: "('a \<Rightarrow> 'a \<Rightarrow> int) \<Rightarrow> 'a list \<Rightarrow> 'a list" where
  "Array_sort cmp xs = foldr (insert_by cmp) xs []"

definition filteredAndSortedStudents ::
  "host \<Rightarrow> Student list \<Rightarrow> FilterConfig \<Rightarrow> SortConfig \<Rightarrow> Student list" where
  "filteredAndSortedStudents h studs filters sortConfig =
     Array_sort (compareStudents h sortConfig) (filter (filterPredicate filters) studs)"

text \<open>
  \<^verbatim>\<open>handleSort\<close>, the sort configuration after a click on the header of column \<open>k\<close>:
  \<^verbatim>\<open>{ key, direction: prev.key === key && prev.direction === 'asc' ? 'desc' : 'asc' }\<close>.
\<close>

definition handleSort :: "SortConfig \<Rightarrow> sort_key \<Rightarrow> SortConfig" where
  "handleSort prev k =
     \<lparr>key = k,
      direction = (if key prev = k \<and> direction prev = asc then desc else asc)\<rparr>"

section \<open>Two notions of the specification\<close>

text \<open>
  Following the specification's words, to be compared with the code. A numeric string is
  a decimal numeral from its first character to its last, white space around it apart:
  a sign, digits with a fraction or \<^verbatim>\<open>Infinity\<close>, an exponent, and nothing after.
\<close>

definition numeric_string :: "string \<Rightarrow> bool" where
  "numeric_string s =
     (let t = trimStart s;
          u = (if t \<noteq> [] \<and> (hd t = CHR ''-'' \<or> hd t = CHR ''+'') then tl t else t)
      in case strUnsignedDecimalLiteral u of
           (NoLiteral, r) \<Rightarrow> False
         | (l, r) \<Rightarrow> trimStart r = [])"

text \<open>
  Following the specification's words: a record passes when it satisfies every predicate
  that is present in the filter, a predicate being present when its field is defined (the
  empty string for the sex, which the type documents as no filter, apart). The name is
  matched as a substring without regard to case, the class and the sex exactly, the age
  against inclusive bounds.
\<close>

definition satisfies_present_predicates :: "FilterConfig \<Rightarrow> Student \<Rightarrow> bool" where
  "satisfies_present_predicates filters student =
     ((case f_name filters of None \<Rightarrow> True
        | Some n \<Rightarrow> sublist (toLowerCase n) (toLowerCase (name student)))
      \<and> (case f_class filters of None \<Rightarrow> True | Some c \<Rightarrow> class' student = c)
      \<and> (case f_sex filters of None \<Rightarrow> True | Some sex_empty \<Rightarrow> True
          | Some (sex_is x) \<Rightarrow> sex student = x)
      \<and> (case f_minAge filters of None \<Rightarrow> True | Some lo \<Rightarrow> lo \<le> age student)
      \<and> (case f_maxAge filters of None \<Rightarrow> True | Some hi \<Rightarrow> age student \<le> hi))"

section \<open>An example host and an example store\<close>

text \<open>
  A collation for the examples: characters compared by their codes, from the left. On
  lower-case ASCII words and on strings of digits and dots it orders as
  \<^verbatim>\<open>localeCompare\<close> does.
\<close>

fun compare_codes :: "string \<Rightarrow> string \<Rightarrow> int" where
  "compare_codes [] [] = 0"
| "compare_codes [] (y # ys) = - 1"
| "compare_codes (x # xs) [] = 1"
| "compare_codes (x # xs) (y # ys) =
     (if (of_char x :: nat) < of_char y then - 1
      else if (of_char y :: nat) < of_char x then 1
      else compare_codes xs ys)"

text \<open>
  The example host renders a number with at most three decimals: the digits of the
  integer part, then the decimals without trailing zeros (\<^verbatim>\<open>String(7)\<close> is \<^verbatim>\<open>"7"\<close>,
  \<^verbatim>\<open>String(7.5)\<close> is \<^verbatim>\<open>"7.5"\<close>). The examples hold no other number.
\<close>

definition example_numberToString :: "jsnum \<Rightarrow> string" where
  "example_numberToString n =
     (case n of
        NaN \<Rightarrow> ''NaN''
      | PosInfinity \<Rightarrow> ''Infinity''
      | NegInfinity \<Rightarrow> ''-Infinity''
      | Fin q \<Rightarrow>
          (let m = \<lfloor>\<bar>q\<bar> * 1000\<rfloor>;
               fp = digits (nat (m mod 1000));
               decimals = rev (dropWhile (\<lambda>c. c = CHR ''0'')
                                (rev (replicate (3 - length fp) (CHR ''0'') @ fp)))
           in (if q < 0 then ''-'' else []) @ digits (nat (m div 1000))
              @ (if decimals = [] then [] else CHR ''.'' # decimals)))"

definition example_host :: host where
  "example_host = \<lparr>localeCompare = compare_codes, numberToString = example_numberToString\<rparr>"

text \<open>
  An example store: the world is the table of wire records. A GET, PUT or DELETE of an
  identifier that no record has is answered by an error; a POST appends a record under
  the next identifier.
\<close>

definition example_404 :: thrown where
  "example_404 = Error ''Request failed with status code 404''"

definition example_row :: "int \<Rightarrow> wire_draft \<Rightarrow> BackendStudent" where
  "example_row u d =
     \<lparr>uuid = u, w_name = d_name d, w_class = d_class d, w_sex = d_sex d, w_age = d_age d,
      w_siblings = d_siblings d, w_gpa = GpaNumber (d_gpa d)\<rparr>"

definition example_api :: "(BackendStudent list) api" where
  "example_api =
     \<lparr>GET_students = (\<lambda>w. (Inr w, w)),
      GET_student = (\<lambda>i w. case find (\<lambda>b. toString (uuid b) = i) w of
                              Some b \<Rightarrow> (Inr b, w)
                            | None \<Rightarrow> (Inl example_404, w)),
      POST_student = (\<lambda>d w. let u = 1 + foldr max (map uuid w) 0
                             in (Inr u, w @ [example_row u d])),
      PUT_student = (\<lambda>i d w. if \<exists>b \<in> set w. toString (uuid b) = i
                              then (Inr (), map (\<lambda>b. if toString (uuid b) = i
                                                      then example_row (uuid b) d else b) w)
                              else (Inl example_404, w)),
      DELETE_student = (\<lambda>i w. if \<exists>b \<in> set w. toString (uuid b) = i
                               then (Inr (), filter (\<lambda>b. toString (uuid b) \<noteq> i) w)
                               else (Inl example_404, w))\<rparr>"

text \<open>A store that cannot be reached: every request throws a network error.\<close>

definition offline_api :: "'w api" where
  "offline_api =
     \<lparr>GET_students = (\<lambda>w. (Inl (Error ''Network Error''), w)),
      GET_student = (\<lambda>i w. (Inl (Error ''Network Error''), w)),
      POST_student = (\<lambda>d w. (Inl (Error ''Network Error''), w)),
      PUT_student = (\<lambda>i d w. (Inl (Error ''Network Error''), w)),
      DELETE_student = (\<lambda>i w. (Inl (Error ''Network Error''), w))\<rparr>"

text \<open>A store that creates a record and then fails to return it.\<close>

definition forgetful_api :: "(BackendStudent list) api" where
  "forgetful_api = example_api\<lparr>GET_student := (\<lambda>i w. (Inl example_404, w))\<rparr>"

definition alice_row :: BackendStudent where
  "alice_row =
     \<lparr>uuid = 1, w_name = ''Alice'', w_class = 5, w_sex = female, w_age = 11,
      w_siblings = 1, w_gpa = GpaString ''8.5''\<rparr>"

definition alice :: Student where
  "alice =
     \<lparr>name = ''Alice'', class' = 5, sex = female, age = 11, siblings = 1, gpa = ''8.5'',
      id' = ''1''\<rparr>"

definition bob_draft :: CreateStudentRequest where
  "bob_draft =
     \<lparr>name = ''Bob'', class' = 5, sex = male, age = 12, siblings = 0, gpa = ''7.0''\<rparr>"

definition bob :: Student where
  "bob =
     \<lparr>name = ''Bob'', class' = 5, sex = male, age = 12, siblings = 0, gpa = ''7'',
      id' = ''2''\<rparr>"

definition bob_row :: BackendStudent where
  "bob_row =
     \<lparr>uuid = 2, w_name = ''Bob'', w_class = 5, w_sex = male, w_age = 12,
      w_siblings = 0, w_gpa = GpaNumber (Fin 7)\<rparr>"

definition nine :: Student where
  "nine =
     \<lparr>name = ''Nina'', class' = 9, sex = female, age = 14, siblings = 3, gpa = ''9.5'',
      id' = ''4''\<rparr>"

definition carol :: Student where
  "carol =
     \<lparr>name = ''Carol'', class' = 9, sex = female, age = 15, siblings = 2, gpa = ''10.0'',
      id' = ''3''\<rparr>"

section \<open>Auxiliary facts\<close>

lemmas thunk_defs =
  fetchStudents_def fetchStudentById_def createStudent_def updateStudent_def deleteStudent_def
  run_thunk_def fetchStudents_completion_def fetchStudentById_completion_def
  createStudent_completion_def updateStudent_completion_def deleteStudent_completion_def
  studentService_getAllStudents_def studentService_getStudentById_def
  studentService_createStudent_def studentService_updateStudent_def
  studentService_deleteStudent_def

lemma findIndex_from_eq:
  "findIndex_from P xs k =
     (if \<exists>x \<in> set xs. P x then k + int (length (takeWhile (\<lambda>x. \<not> P x) xs)) else - 1)"
  by (induction xs arbitrary: k) auto

lemma findIndex_eq:
  "findIndex P xs =
     (if \<exists>x \<in> set xs. P x then int (length (takeWhile (\<lambda>x. \<not> P x) xs)) else - 1)"
  by (simp add: findIndex_def findIndex_from_eq)

lemma first_index_less: "\<exists>x \<in> set xs. P x \<Longrightarrow> first_index P xs < length xs"
  unfolding first_index_def by (induction xs) auto

lemma first_index_holds: "\<exists>x \<in> set xs. P x \<Longrightarrow> P (xs ! first_index P xs)"
  using first_index_less [of xs P] nth_length_takeWhile [of "\<lambda>x. \<not> P x" xs]
  unfolding first_index_def by simp

lemma first_index_before: "j < first_index P xs \<Longrightarrow> \<not> P (xs ! j)"
proof -
  assume j: "j < first_index P xs"
  let ?ys = "takeWhile (\<lambda>x. \<not> P x) xs"
  have "j < length ?ys" using j by (simp add: first_index_def)
  then have m: "?ys ! j \<in> set ?ys" and e: "?ys ! j = xs ! j"
    by (rule nth_mem, rule takeWhile_nth)
  from m have "\<not> P (?ys ! j)" by (rule set_takeWhileD [THEN conjunct2])
  then show ?thesis unfolding e .
qed

lemma update_fulfilled_students:
  "students (studentSlice_reducer s (updateStudent_fulfilled p)) =
     (if \<exists>x \<in> set (students s). id' x = id' p
      then (students s)[first_index (\<lambda>x. id' x = id' p) (students s) := p]
      else students s)"
  by (simp add: findIndex_eq first_index_def Let_def)

lemma update_first_distinct:
  assumes "distinct (map id' xs)" and "\<exists>x \<in> set xs. id' x = id' p"
  shows "xs[first_index (\<lambda>x. id' x = id' p) xs := p] = map (\<lambda>x. if id' x = id' p then p else x) xs"
proof (rule nth_equalityI)
  show "length (xs[first_index (\<lambda>x. id' x = id' p) xs := p]) = length (map (\<lambda>x. if id' x = id' p then p else x) xs)"
    by simp
next
  fix j assume "j < length (xs[first_index (\<lambda>x. id' x = id' p) xs := p])"
  then have j: "j < length xs" by simp
  let ?k = "first_index (\<lambda>x. id' x = id' p) xs"
  have k: "?k < length xs" and kp: "id' (xs ! ?k) = id' p"
    using assms(2) first_index_less [of xs "\<lambda>x. id' x = id' p"]
      first_index_holds [of xs "\<lambda>x. id' x = id' p"] by auto
  show "xs[?k := p] ! j = map (\<lambda>x. if id' x = id' p then p else x) xs ! j"
  proof (cases "j = ?k")
    case True
    then show ?thesis using j kp by simp
  next
    case False
    have "id' (xs ! j) \<noteq> id' p"
    proof
      assume "id' (xs ! j) = id' p"
      then have "map id' xs ! j = map id' xs ! ?k" using j k kp by simp
      moreover have "j < length (map id' xs)" "?k < length (map id' xs)" using j k by simp_all
      ultimately have "j = ?k" using assms(1) nth_eq_iff_index_eq by blast
      then show False using False by simp
    qed
    then show ?thesis using j False by simp
  qed
qed

lemma list_update_first_nth:
  assumes "\<exists>x \<in> set xs. P x" and "j < length xs"
  shows "xs[first_index P xs := p] ! j = (if P (xs ! j) \<and> (\<forall>k < j. \<not> P (xs ! k)) then p else xs ! j)"
proof (cases "j = first_index P xs")
  case True
  have "P (xs ! j)" using True first_index_holds [OF assms(1)] by simp
  moreover have "\<forall>k < j. \<not> P (xs ! k)" using True first_index_before [of _ P xs] by simp
  ultimately show ?thesis using True assms(2) by simp
next
  case False
  have "\<not> (P (xs ! j) \<and> (\<forall>k < j. \<not> P (xs ! k)))"
  proof
    assume h: "P (xs ! j) \<and> (\<forall>k < j. \<not> P (xs ! k))"
    have "\<not> first_index P xs < j" using h first_index_holds [OF assms(1)] by blast
    moreover have "\<not> j < first_index P xs" using h first_index_before [of j P xs] by blast
    ultimately show False using False by simp
  qed
  then show ?thesis using False by auto
qed

lemma toString_examples:
  "toString 1 = ''1''" "toString 2 = ''2''" "toString 3 = ''3''"
  by code_simp+

lemma floorLog2_examples:
  "floorLog2 7 = 2" "floorLog2 (15 / 2) = 2" "floorLog2 (17 / 2) = 3"
  "floorLog2 (19 / 2) = 3" "floorLog2 10 = 3"
  by code_simp+

lemma parseFloat_examples:
  "parseFloat ''7.0'' = Fin 7" "parseFloat ''8.5'' = Fin (17 / 2)"
  "parseFloat ''7.5xyz'' = Fin (15 / 2)" "parseFloat ''xyz'' = NaN"
  "parseFloat ''9.5'' = Fin (19 / 2)" "parseFloat ''10.0'' = Fin 10"
  by (simp_all add: parseFloat_def trimStart_def isWhiteSpace_def strUnsignedDecimalLiteral_def
      isDigit_def exponentPart_def decimalValue_def pow10_def toBinary64_def pow2_def
      roundTiesToEven_def floorLog2_examples Let_def)

lemma trim_examples:
  "trim ''Bob'' = ''Bob''" "trim ''7.5xyz'' = ''7.5xyz''" "trim ''7.0'' = ''7.0''"
  "trim ''xyz'' = ''xyz''" "trim ''   '' = []"
  by (simp_all add: trim_def trimStart_def isWhiteSpace_def)

lemma example_numberToString_examples:
  "example_numberToString (Fin 7) = ''7''" "example_numberToString (Fin (15 / 2)) = ''7.5''"
  by code_simp+

lemmas example_defs =
  example_api_def example_host_def example_row_def example_404_def offline_api_def
  forgetful_api_def alice_row_def alice_def bob_draft_def bob_def bob_row_def carol_def nine_def
  transformStudentFromBackend_def transformStudentToBackend_def String_of_def
  rejectWithValue_def initialState_def toString_examples parseFloat_examples
  example_numberToString_examples

lemma thunk_outcomes:
  "fst (studentService_getAllStudents h a w) = Inr xs \<Longrightarrow>
     fst (fetchStudents h a (s, w)) =
       studentSlice_reducer (studentSlice_reducer s fetchStudents_pending) (fetchStudents_fulfilled xs)"
  "fst (studentService_getAllStudents h a w) = Inl e \<Longrightarrow>
     fst (fetchStudents h a (s, w)) =
       studentSlice_reducer (studentSlice_reducer s fetchStudents_pending)
         (fetchStudents_rejected (rejectWithValue e ''Failed to fetch students''))"
  "fst (studentService_getStudentById h a i w) = Inr x \<Longrightarrow>
     fst (fetchStudentById h a i (s, w)) =
       studentSlice_reducer (studentSlice_reducer s fetchStudentById_pending) (fetchStudentById_fulfilled x)"
  "fst (studentService_getStudentById h a i w) = Inl e \<Longrightarrow>
     fst (fetchStudentById h a i (s, w)) =
       studentSlice_reducer (studentSlice_reducer s fetchStudentById_pending)
         (fetchStudentById_rejected (rejectWithValue e ''Failed to fetch student''))"
  "fst (studentService_createStudent h a d w) = Inr x \<Longrightarrow>
     fst (createStudent h a d (s, w)) =
       studentSlice_reducer (studentSlice_reducer s createStudent_pending) (createStudent_fulfilled x)"
  "fst (studentService_createStudent h a d w) = Inl e \<Longrightarrow>
     fst (createStudent h a d (s, w)) =
       studentSlice_reducer (studentSlice_reducer s createStudent_pending)
         (createStudent_rejected (rejectWithValue e ''Failed to create student''))"
  "fst (studentService_updateStudent h a i d w) = Inr x \<Longrightarrow>
     fst (updateStudent h a i d (s, w)) =
       studentSlice_reducer (studentSlice_reducer s updateStudent_pending) (updateStudent_fulfilled x)"
  "fst (studentService_updateStudent h a i d w) = Inl e \<Longrightarrow>
     fst (updateStudent h a i d (s, w)) =
       studentSlice_reducer (studentSlice_reducer s updateStudent_pending)
         (updateStudent_rejected (rejectWithValue e ''Failed to update student''))"
  "fst (studentService_deleteStudent a i w) = Inr u \<Longrightarrow>
     fst (deleteStudent a i (s, w)) =
       studentSlice_reducer (studentSlice_reducer s deleteStudent_pending) (deleteStudent_fulfilled i)"
  "fst (studentService_deleteStudent a i w) = Inl e \<Longrightarrow>
     fst (deleteStudent a i (s, w)) =
       studentSlice_reducer (studentSlice_reducer s deleteStudent_pending)
         (deleteStudent_rejected (rejectWithValue e ''Failed to delete student''))"
  by (auto simp: fetchStudents_def fetchStudentById_def createStudent_def updateStudent_def
      deleteStudent_def run_thunk_def fetchStudents_completion_def
      fetchStudentById_completion_def createStudent_completion_def
      updateStudent_completion_def deleteStudent_completion_def split: prod.splits sum.splits)

lemma updateStudent_students:
  assumes "fst (studentService_updateStudent h a i studentData w) = Inr B'"
  shows "students (fst (updateStudent h a i studentData (s, w))) =
     (if \<exists>x \<in> set (students s). id' x = id' B'
      then (students s)[first_index (\<lambda>x. id' x = id' B') (students s) := B']
      else students s)"
proof -
  have "students (studentSlice_reducer s updateStudent_pending) = students s"
    by simp
  then show ?thesis
    unfolding thunk_outcomes(7) [OF assms] update_fulfilled_students by simp
qed

lemma updateStudent_recentLookup:
  "recentLookup (fst (updateStudent h a i studentData (s, w))) = recentLookup s"
  by (cases "studentService_updateStudent h a i studentData w"; cases "fst (studentService_updateStudent h a i studentData w)")
     (simp_all add: updateStudent_def run_thunk_def updateStudent_completion_def Let_def)

lemma digit_char_code: "k < 10 \<Longrightarrow> of_char (''0123456789'' ! k) = (48 + int k)"
proof -
  assume "k < 10"
  then have "k \<in> {0, 1, 2, 3, 4, 5, 6, 7, 8, 9}" by auto
  then show ?thesis by auto
qed

lemma decimalValue_snoc: "decimalValue (ds @ [c]) = 10 * decimalValue ds + (of_char c - 48)"
  by (simp add: decimalValue_def)

lemma decimalValue_digits: "decimalValue (digits n) = int n"
proof (induction n rule: digits.induct)
  case (1 n)
  show ?case
  proof (cases "n < 10")
    case True
    then show ?thesis
      using digit_char_code [of n] by (subst digits.simps) (simp add: decimalValue_def)
  next
    case False
    have "decimalValue (digits n) = 10 * decimalValue (digits (n div 10)) + (of_char (''0123456789'' ! (n mod 10)) - 48)"
      using False by (subst digits.simps) (simp add: decimalValue_snoc)
    also have "\<dots> = 10 * int (n div 10) + int (n mod 10)"
      using 1 False digit_char_code [of "n mod 10"] by simp
    also have "\<dots> = int n" by presburger
    finally show ?thesis .
  qed
qed

lemma digits_inj: "digits m = digits n \<Longrightarrow> m = n"
  by (metis decimalValue_digits of_nat_eq_iff)

lemma digits_no_minus: "CHR ''-'' \<notin> set (digits n)"
proof (induction n rule: digits.induct)
  case (1 n)
  have d: "\<And>k. k < 10 \<Longrightarrow> ''0123456789'' ! k \<noteq> CHR ''-''"
  proof -
    fix k :: nat assume "k < 10"
    then have "k \<in> {0, 1, 2, 3, 4, 5, 6, 7, 8, 9}" by auto
    then show "''0123456789'' ! k \<noteq> CHR ''-''" by auto
  qed
  show ?case
  proof (cases "n < 10")
    case True
    then show ?thesis using d [of n] by (subst digits.simps) simp
  next
    case False
    then show ?thesis using 1 d [of "n mod 10"] by (subst digits.simps) simp
  qed
qed

lemma toString_inj: "toString a = toString b \<Longrightarrow> a = b"
proof -
  assume eq: "toString a = toString b"
  consider "a < 0" "b < 0" | "0 \<le> a" "0 \<le> b" | "a < 0" "0 \<le> b" | "0 \<le> a" "b < 0"
    by linarith
  then show ?thesis
  proof cases
    case 1
    then have "digits (nat (- a)) = digits (nat (- b))" using eq by (simp add: toString_def)
    then have "nat (- a) = nat (- b)" by (rule digits_inj)
    then show ?thesis using 1 by simp
  next
    case 2
    then have "digits (nat a) = digits (nat b)" using eq by (simp add: toString_def)
    then have "nat a = nat b" by (rule digits_inj)
    then show ?thesis using 2 by simp
  next
    case 3
    then have "CHR ''-'' # digits (nat (- a)) = digits (nat b)" using eq by (simp add: toString_def)
    then have "CHR ''-'' \<in> set (digits (nat b))" by (metis list.set_intros(1))
    then show ?thesis using digits_no_minus by blast
  next
    case 4
    then have "digits (nat a) = CHR ''-'' # digits (nat (- b))" using eq by (simp add: toString_def)
    then have "CHR ''-'' \<in> set (digits (nat a))" by (metis list.set_intros(1))
    then show ?thesis using digits_no_minus by blast
  qed
qed

lemma transformed_ids_distinct:
  "distinct (map uuid bs) \<Longrightarrow> distinct (map id' (map (transformStudentFromBackend h) bs))"
proof -
  assume d: "distinct (map uuid bs)"
  have "map id' (map (transformStudentFromBackend h) bs) = map toString (map uuid bs)"
    by (simp add: transformStudentFromBackend_def)
  moreover have "inj_on toString (set (map uuid bs))"
    by (rule inj_onI) (rule toString_inj)
  ultimately show ?thesis using d by (simp only: distinct_map)
qed

lemma String_includes_iff: "String_includes s t \<longleftrightarrow> (\<exists>p q. s = p @ t @ q)"
  by (simp add: String_includes_def sublist_def)

lemma nameMatch_iff:
  "nameMatch filters student \<longleftrightarrow>
     (\<forall>n. f_name filters = Some n \<and> n \<noteq> [] \<longrightarrow>
        (\<exists>p q. toLowerCase (name student) = p @ toLowerCase n @ q))"
  by (cases "f_name filters") (auto simp: nameMatch_def String_includes_iff)

lemma classMatch_iff:
  "classMatch filters student \<longleftrightarrow> (\<forall>c. f_class filters = Some c \<and> c \<noteq> 0 \<longrightarrow> class' student = c)"
  by (cases "f_class filters") (auto simp: classMatch_def)

lemma sexMatch_iff:
  "sexMatch filters student \<longleftrightarrow> (\<forall>x. f_sex filters = Some (sex_is x) \<longrightarrow> sex student = x)"
  by (cases "f_sex filters") (auto simp: sexMatch_def split: sex_filter.splits)

lemma ageMatch_iff:
  "ageMatch filters student \<longleftrightarrow>
     (\<forall>lo. f_minAge filters = Some lo \<and> lo \<noteq> 0 \<longrightarrow> lo \<le> age student)
     \<and> (\<forall>hi. f_maxAge filters = Some hi \<and> hi \<noteq> 0 \<longrightarrow> age student \<le> hi)"
  by (cases "f_minAge filters"; cases "f_maxAge filters") (auto simp: ageMatch_def)

lemma toLowerCase_Nil: "toLowerCase [] = []"
  by (simp add: toLowerCase_def)

lemma toLowerCase_an: "toLowerCase ''an'' = ''an''"
  by (simp add: toLowerCase_def)

lemma toLowerCase_examples:
  "toLowerCase ''Joanna'' = ''joanna''" "toLowerCase ''AN'' = ''an''"
  by code_simp+

lemma compare_codes_swap: "compare_codes y x = - compare_codes x y"
  by (induction x y rule: compare_codes.induct) auto

lemma validateForm_iff:
  "validateForm formData \<longleftrightarrow>
     trim (name formData) \<noteq> []
     \<and> 1 \<le> class' formData \<and> class' formData \<le> 12
     \<and> 1 \<le> age formData \<and> age formData \<le> 100
     \<and> 0 \<le> siblings formData \<and> siblings formData \<le> 20
     \<and> trim (gpa formData) \<noteq> []
     \<and> parseFloat (gpa formData) \<noteq> NaN
     \<and> \<not> js_less (parseFloat (gpa formData)) (Fin 0)
     \<and> \<not> js_less (Fin 10) (parseFloat (gpa formData))"
  by (auto simp: validateForm_def newErrors_def isNaN_def Let_def)

lemma trim_white: "\<forall>c \<in> set s. isWhiteSpace c \<Longrightarrow> trim s = []"
proof -
  assume "\<forall>c \<in> set s. isWhiteSpace c"
  then have e: "dropWhile isWhiteSpace s = []" by (simp add: dropWhile_eq_Nil_conv)
  show ?thesis unfolding trim_def trimStart_def e by simp
qed

lemma validateForm_rejects:
  "(\<forall>c \<in> set (name formData). isWhiteSpace c) \<Longrightarrow> \<not> validateForm formData"
  "class' formData < 1 \<or> 12 < class' formData \<Longrightarrow> \<not> validateForm formData"
  "age formData < 1 \<or> 100 < age formData \<Longrightarrow> \<not> validateForm formData"
  "siblings formData < 0 \<or> 20 < siblings formData \<Longrightarrow> \<not> validateForm formData"
  "(\<forall>c \<in> set (gpa formData). isWhiteSpace c) \<Longrightarrow> \<not> validateForm formData"
  "parseFloat (gpa formData) = NaN \<Longrightarrow> \<not> validateForm formData"
  "js_less (parseFloat (gpa formData)) (Fin 0) \<Longrightarrow> \<not> validateForm formData"
  "js_less (Fin 10) (parseFloat (gpa formData)) \<Longrightarrow> \<not> validateForm formData"
  by (auto simp: validateForm_iff trim_white)

lemma handleSubmit_invalid:
  "\<not> validateForm formData \<Longrightarrow> handleSubmit onSubmit formData x = x"
  by (simp add: handleSubmit_def)

lemma numeric_string_examples:
  "\<not> numeric_string ''7.5xyz''" "numeric_string ''7.0''" "\<not> numeric_string ''xyz''"
  by (simp_all add: numeric_string_def trimStart_def isWhiteSpace_def strUnsignedDecimalLiteral_def
      isDigit_def exponentPart_def decimalValue_def pow10_def Let_def)

section \<open>Unique identifiers in the list\<close>

text \<open>
  C1, as stated, fails. Against the example store a creation of Bob is answered by the
  record of identifier 2, and a load that the store serves after the POST already lists
  Bob. When the load completes first and the creation after it, the reducer appends Bob a
  second time: the list holds the identifier 2 twice.
\<close>

theorem create_after_loadAll_duplicates:
  "createStudent_completion example_host example_api bob_draft [alice_row]
     = (createStudent_fulfilled bob, [alice_row, bob_row])
   \<and> fetchStudents_completion example_host example_api [alice_row, bob_row]
     = (fetchStudents_fulfilled [alice, bob], [alice_row, bob_row])
   \<and> students (dispatch_all initialState
        [createStudent_pending, fetchStudents_pending,
         fetchStudents_fulfilled [alice, bob], createStudent_fulfilled bob]) = [alice, bob, bob]
   \<and> \<not> distinct (map id' [alice, bob, bob])"
  by (simp add: thunk_defs example_defs dispatch_all_def)

text \<open>
  C1, amended. After a successful \<^verbatim>\<open>loadAll\<close> the list is the transformed list of the
  response, with distinct identifiers when the store's are distinct. A list with distinct
  identifiers keeps them distinct under a load completion exactly when the loaded list
  has distinct identifiers, under every update and delete completion, and under a create
  completion exactly when the new identifier is not yet in the list; every other action
  leaves the list as it is.
\<close>

theorem unique_ids_kept_except_by_create:
  "(fst (GET_students a w) = Inr bs \<longrightarrow>
      students (fst (fetchStudents h a (s, w))) = map (transformStudentFromBackend h) bs)
   \<and> (distinct (map uuid bs) \<longrightarrow> distinct (map id' (map (transformStudentFromBackend h) bs)))
   \<and> (distinct (map id' (students s)) \<longrightarrow>
        (distinct (map id' (students (studentSlice_reducer s (fetchStudents_fulfilled xs))))
           = distinct (map id' xs))
        \<and> distinct (map id' (students (studentSlice_reducer s (updateStudent_fulfilled p))))
        \<and> distinct (map id' (students (studentSlice_reducer s (deleteStudent_fulfilled i))))
        \<and> (distinct (map id' (students (studentSlice_reducer s (createStudent_fulfilled p))))
             = (id' p \<notin> id' ` set (students s))))
   \<and> ((\<forall>ys. act \<noteq> fetchStudents_fulfilled ys) \<and> (\<forall>q. act \<noteq> updateStudent_fulfilled q)
        \<and> (\<forall>j. act \<noteq> deleteStudent_fulfilled j) \<and> (\<forall>q. act \<noteq> createStudent_fulfilled q)
        \<longrightarrow> students (studentSlice_reducer s act) = students s)"
proof (intro conjI impI)
  assume g: "fst (GET_students a w) = Inr bs"
  then have "fst (studentService_getAllStudents h a w) = Inr (map (transformStudentFromBackend h) bs)"
    by (cases "GET_students a w") (simp add: studentService_getAllStudents_def)
  from thunk_outcomes(1) [OF this]
  show "students (fst (fetchStudents h a (s, w))) = map (transformStudentFromBackend h) bs"
    by simp
next
  assume "distinct (map uuid bs)"
  then show "distinct (map id' (map (transformStudentFromBackend h) bs))"
    by (rule transformed_ids_distinct)
next
  show "distinct (map id' (students (studentSlice_reducer s (fetchStudents_fulfilled xs))))
           = distinct (map id' xs)"
    by simp
next
  assume d: "distinct (map id' (students s))"
  have "map id' (students (studentSlice_reducer s (updateStudent_fulfilled p))) = map id' (students s)"
  proof (cases "\<exists>x \<in> set (students s). id' x = id' p")
    case True
    have "id' (students s ! first_index (\<lambda>x. id' x = id' p) (students s)) = id' p"
      using first_index_holds [OF True] by simp
    then show ?thesis
      unfolding update_fulfilled_students using True
      by (simp add: map_update list_update_same_conv first_index_less)
  next
    case False
    then show ?thesis unfolding update_fulfilled_students by simp
  qed
  then show "distinct (map id' (students (studentSlice_reducer s (updateStudent_fulfilled p))))"
    using d by simp
next
  assume d: "distinct (map id' (students s))"
  then show "distinct (map id' (students (studentSlice_reducer s (deleteStudent_fulfilled i))))"
    by (simp add: distinct_map_filter)
next
  assume d: "distinct (map id' (students s))"
  then show "distinct (map id' (students (studentSlice_reducer s (createStudent_fulfilled p))))
             = (id' p \<notin> id' ` set (students s))"
    by simp
next
  assume "(\<forall>ys. act \<noteq> fetchStudents_fulfilled ys) \<and> (\<forall>q. act \<noteq> updateStudent_fulfilled q)
        \<and> (\<forall>j. act \<noteq> deleteStudent_fulfilled j) \<and> (\<forall>q. act \<noteq> createStudent_fulfilled q)"
  then show "students (studentSlice_reducer s act) = students s"
    by (cases act) simp_all
qed

text \<open>
  An instance: the example store with Alice and Bob, and a creation of Carol, whose
  identifier is new.
\<close>

theorem unique_ids_kept_except_by_create_witness:
  "fst (GET_students example_api [alice_row, bob_row]) = Inr [alice_row, bob_row]
   \<and> students (fst (fetchStudents example_host example_api (initialState, [alice_row, bob_row])))
       = [alice, bob]
   \<and> distinct (map id' [alice, bob])
   \<and> id' carol \<notin> id' ` set [alice, bob]
   \<and> distinct (map id' (students (studentSlice_reducer
         \<lparr>students = [alice, bob], recentLookup = None, loading = False, error = None\<rparr>
         (createStudent_fulfilled carol))))
   \<and> students (studentSlice_reducer
         \<lparr>students = [alice, bob], recentLookup = None, loading = False, error = None\<rparr>
         createStudent_pending) = [alice, bob]"
proof -
  let ?s = "\<lparr>students = [alice, bob], recentLookup = None, loading = False, error = None\<rparr>"
  note t = unique_ids_kept_except_by_create [where a = example_api and w = "[alice_row, bob_row]"
      and bs = "[alice_row, bob_row]" and h = example_host and s = ?s and p = carol
      and act = createStudent_pending]
  note t0 = unique_ids_kept_except_by_create [where a = example_api and w = "[alice_row, bob_row]"
      and bs = "[alice_row, bob_row]" and h = example_host and s = initialState]
  have g: "fst (GET_students example_api [alice_row, bob_row]) = Inr [alice_row, bob_row]"
    by (simp add: example_api_def)
  have d: "distinct (map id' (students ?s))"
    by (simp add: alice_def bob_def)
  have fresh: "id' carol \<notin> id' ` set (students ?s)"
    by (simp add: alice_def bob_def carol_def)
  have l: "students (fst (fetchStudents example_host example_api (initialState, [alice_row, bob_row])))
       = map (transformStudentFromBackend example_host) [alice_row, bob_row]"
    using t0 g by blast
  have c: "distinct (map id' (students (studentSlice_reducer ?s (createStudent_fulfilled carol))))"
    using t d fresh by blast
  have p: "students (studentSlice_reducer ?s createStudent_pending) = students ?s"
    using t by blast
  have m: "map (transformStudentFromBackend example_host) [alice_row, bob_row] = [alice, bob]"
    by (simp add: example_defs)
  show ?thesis using g l c p m d fresh by simp
qed

section \<open>Update in place\<close>

text \<open>
  C2. After a successful \<^verbatim>\<open>update(id, draft)\<close> whose re-fetch returns the record \<open>B'\<close> of
  that identifier, the list has the length it had; the first element with the identifier
  is \<open>B'\<close> and every other position holds what it held, so \<open>[A, B, C]\<close> becomes
  \<open>[A, B', C]\<close>; with distinct identifiers, exactly the element with the identifier is
  replaced; with no element of that identifier the list is unchanged.
\<close>

theorem updateStudent_replaces_in_place:
  assumes "fst (studentService_updateStudent h a i studentData w) = Inr B'"
    and "id' B' = i"
    and "s' = fst (updateStudent h a i studentData (s, w))"
  shows "length (students s') = length (students s)
    \<and> (\<forall>j < length (students s).
          students s' ! j =
            (if id' (students s ! j) = i \<and> (\<forall>k < j. id' (students s ! k) \<noteq> i)
             then B' else students s ! j))
    \<and> ((\<forall>x \<in> set (students s). id' x \<noteq> i) \<longrightarrow> students s' = students s)
    \<and> (distinct (map id' (students s)) \<longrightarrow>
          students s' = map (\<lambda>x. if id' x = i then B' else x) (students s))
    \<and> (\<forall>A B C. students s = [A, B, C] \<and> id' A \<noteq> i \<and> id' B = i \<longrightarrow> students s' = [A, B', C])
    \<and> recentLookup s' = recentLookup s"
proof -
  let ?xs = "students s"
  let ?P = "\<lambda>x. id' x = i"
  have st: "students s' = (if \<exists>x \<in> set ?xs. ?P x then ?xs[first_index ?P ?xs := B'] else ?xs)"
    using updateStudent_students [OF assms(1), of s] assms(2,3) by simp
  have len: "length (students s') = length ?xs"
    by (simp add: st)
  have nth: "students s' ! j =
      (if id' (?xs ! j) = i \<and> (\<forall>k < j. id' (?xs ! k) \<noteq> i) then B' else ?xs ! j)"
    if j: "j < length ?xs" for j
  proof (cases "\<exists>x \<in> set ?xs. ?P x")
    case False
    then have "id' (?xs ! j) \<noteq> i" using j nth_mem by blast
    then show ?thesis using False st by simp
  next
    case True
    show ?thesis using list_update_first_nth [OF True j, of B'] st True by simp
  qed
  have absent: "students s' = ?xs" if "\<forall>x \<in> set ?xs. id' x \<noteq> i"
    using that st by simp
  have dist: "students s' = map (\<lambda>x. if id' x = i then B' else x) ?xs"
    if d: "distinct (map id' ?xs)"
  proof (cases "\<exists>x \<in> set ?xs. ?P x")
    case True
    then have "\<exists>x \<in> set ?xs. id' x = id' B'" using assms(2) by simp
    from update_first_distinct [OF d this] show ?thesis using st True assms(2) by simp
  next
    case False
    then have "map (\<lambda>x. if id' x = i then B' else x) ?xs = ?xs"
      by (simp add: map_idI)
    then show ?thesis using st False by simp
  qed
  have abc: "students s' = [A, B', C]"
    if "students s = [A, B, C] \<and> id' A \<noteq> i \<and> id' B = i" for A B C
    using that st by (simp add: first_index_def)
  have rl: "recentLookup s' = recentLookup s"
    using assms(3) by (simp add: updateStudent_recentLookup)
  show ?thesis
  proof (intro conjI allI impI)
    show "length (students s') = length (students s)" by (rule len)
    show "students s' ! j =
        (if id' (students s ! j) = i \<and> (\<forall>k < j. id' (students s ! k) \<noteq> i)
         then B' else students s ! j)" if "j < length (students s)" for j
      using that by (rule nth)
    show "students s' = students s" if "\<forall>x \<in> set (students s). id' x \<noteq> i"
      using that by (rule absent)
    show "students s' = map (\<lambda>x. if id' x = i then B' else x) (students s)"
      if "distinct (map id' (students s))"
      using that by (rule dist)
    show "students s' = [A, B', C]"
      if "students s = [A, B, C] \<and> id' A \<noteq> i \<and> id' B = i" for A B C
      using that by (rule abc)
    show "recentLookup s' = recentLookup s" by (rule rl)
  qed
qed

text \<open>
  An instance: Bob, in the middle of the list, is updated to the age of 13.
\<close>

theorem updateStudent_replaces_in_place_witness:
  "fst (studentService_updateStudent example_host example_api ''2'' (bob_draft\<lparr>age := 13\<rparr>)
          [alice_row, bob_row]) = Inr (bob\<lparr>age := 13\<rparr>)
   \<and> id' (bob\<lparr>age := 13\<rparr>) = ''2''
   \<and> students (fst (updateStudent example_host example_api ''2'' (bob_draft\<lparr>age := 13\<rparr>)
        (\<lparr>students = [alice, bob, carol], recentLookup = None, loading = False, error = None\<rparr>,
         [alice_row, bob_row]))) = [alice, bob\<lparr>age := 13\<rparr>, carol]"
proof -
  let ?s = "\<lparr>students = [alice, bob, carol], recentLookup = None, loading = False, error = None\<rparr>"
  have a: "fst (studentService_updateStudent example_host example_api ''2'' (bob_draft\<lparr>age := 13\<rparr>)
          [alice_row, bob_row]) = Inr (bob\<lparr>age := 13\<rparr>)"
    by (simp add: studentService_updateStudent_def studentService_getStudentById_def example_defs)
  have b: "id' (bob\<lparr>age := 13\<rparr>) = ''2''"
    by (simp add: bob_def)
  have c: "students ?s = [alice, bob, carol] \<and> id' alice \<noteq> ''2'' \<and> id' bob = ''2''"
    by (simp add: alice_def bob_def)
  from updateStudent_replaces_in_place [OF a b refl, of ?s] c
  have "students (fst (updateStudent example_host example_api ''2'' (bob_draft\<lparr>age := 13\<rparr>)
        (?s, [alice_row, bob_row]))) = [alice, bob\<lparr>age := 13\<rparr>, carol]"
    by blast
  with a b show ?thesis by blast
qed

section \<open>Create and the follow-up fetch\<close>

text \<open>
  C3. \<^verbatim>\<open>create(draft)\<close> POSTs the transformed draft and gets an identifier; it then GETs
  that identifier from the store as the POST left it, and appends the transformed record
  exactly when this GET succeeds. When the POST or the GET fails, the list is as before
  and only \<open>loading\<close> and \<open>error\<close> are written.
\<close>

theorem createStudent_appends_after_refetch:
  "createStudent h a studentData (s, w) =
     (case POST_student a (transformStudentToBackend studentData) w of
        (Inl e, w1) \<Rightarrow>
          (s\<lparr>loading := False, error := Some (rejectWithValue e ''Failed to create student'')\<rparr>, w1)
      | (Inr createdUuid, w1) \<Rightarrow>
          (case GET_student a (toString createdUuid) w1 of
             (Inl e, w2) \<Rightarrow>
               (s\<lparr>loading := False,
                  error := Some (rejectWithValue e ''Failed to create student'')\<rparr>, w2)
           | (Inr backendStudent, w2) \<Rightarrow>
               (s\<lparr>loading := False, error := None,
                  students := students s @ [transformStudentFromBackend h backendStudent]\<rparr>, w2)))"
  by (simp add: thunk_defs Let_def split: prod.splits sum.splits)

text \<open>
  Instances: a creation that succeeds, one whose follow-up fetch fails after the store
  has created the record, and one whose POST fails.
\<close>

theorem createStudent_appends_after_refetch_witness:
  "createStudent example_host example_api bob_draft
     (\<lparr>students = [alice], recentLookup = None, loading = False, error = None\<rparr>, [alice_row])
   = (\<lparr>students = [alice, bob], recentLookup = None, loading = False, error = None\<rparr>,
      [alice_row, bob_row])
   \<and> createStudent example_host forgetful_api bob_draft
     (\<lparr>students = [alice], recentLookup = None, loading = False, error = None\<rparr>, [alice_row])
   = (\<lparr>students = [alice], recentLookup = None, loading = False,
        error = Some ''Request failed with status code 404''\<rparr>,
      [alice_row, bob_row])
   \<and> createStudent example_host offline_api bob_draft
     (\<lparr>students = [alice], recentLookup = None, loading = False, error = None\<rparr>, [alice_row])
   = (\<lparr>students = [alice], recentLookup = None, loading = False,
        error = Some ''Network Error''\<rparr>,
      [alice_row])"
  using createStudent_appends_after_refetch [of example_host example_api bob_draft
      "\<lparr>students = [alice], recentLookup = None, loading = False, error = None\<rparr>" "[alice_row]"]
    createStudent_appends_after_refetch [of example_host forgetful_api bob_draft
      "\<lparr>students = [alice], recentLookup = None, loading = False, error = None\<rparr>" "[alice_row]"]
    createStudent_appends_after_refetch [of example_host offline_api bob_draft
      "\<lparr>students = [alice], recentLookup = None, loading = False, error = None\<rparr>" "[alice_row]"]
  by (simp add: example_defs)

section \<open>Failed requests\<close>

text \<open>
  C4. For each of the five operations: when its request fails, the state after it is the
  state before it with \<open>loading\<close> false and \<open>error\<close> the message of the failure; the
  list and the recent lookup are those of the state before.
\<close>

theorem failed_request_sets_error_only:
  "(fst (studentService_getAllStudents h a w) = Inl e \<longrightarrow>
      fst (fetchStudents h a (s, w)) =
        s\<lparr>loading := False, error := Some (rejectWithValue e ''Failed to fetch students'')\<rparr>)
   \<and> (fst (studentService_getStudentById h a i w) = Inl e \<longrightarrow>
      fst (fetchStudentById h a i (s, w)) =
        s\<lparr>loading := False, error := Some (rejectWithValue e ''Failed to fetch student'')\<rparr>)
   \<and> (fst (studentService_createStudent h a d w) = Inl e \<longrightarrow>
      fst (createStudent h a d (s, w)) =
        s\<lparr>loading := False, error := Some (rejectWithValue e ''Failed to create student'')\<rparr>)
   \<and> (fst (studentService_updateStudent h a i d w) = Inl e \<longrightarrow>
      fst (updateStudent h a i d (s, w)) =
        s\<lparr>loading := False, error := Some (rejectWithValue e ''Failed to update student'')\<rparr>)
   \<and> (fst (studentService_deleteStudent a i w) = Inl e \<longrightarrow>
      fst (deleteStudent a i (s, w)) =
        s\<lparr>loading := False, error := Some (rejectWithValue e ''Failed to delete student'')\<rparr>)
   \<and> students (s\<lparr>loading := False, error := Some m\<rparr>) = students s
   \<and> recentLookup (s\<lparr>loading := False, error := Some m\<rparr>) = recentLookup s
   \<and> loading (s\<lparr>loading := False, error := Some m\<rparr>) = False
   \<and> error (s\<lparr>loading := False, error := Some m\<rparr>) = Some m"
  by (simp add: thunk_outcomes)

text \<open>
  Instances: the five operations failing, against a store that is unreachable, that
  does not know the identifier, or that loses the record it created.
\<close>

theorem failed_request_sets_error_only_witness:
  "fst (studentService_getAllStudents example_host offline_api [alice_row]) = Inl (Error ''Network Error'')
   \<and> fst (fetchStudents example_host offline_api
        (\<lparr>students = [alice, bob], recentLookup = Some carol, loading = False, error = None\<rparr>, [alice_row]))
      = \<lparr>students = [alice, bob], recentLookup = Some carol, loading = False, error = Some ''Network Error''\<rparr>
   \<and> fst (studentService_getStudentById example_host example_api ''9'' [alice_row]) = Inl example_404
   \<and> fst (fetchStudentById example_host example_api ''9''
        (\<lparr>students = [alice, bob], recentLookup = Some carol, loading = False, error = None\<rparr>, [alice_row]))
      = \<lparr>students = [alice, bob], recentLookup = Some carol, loading = False,
          error = Some ''Request failed with status code 404''\<rparr>
   \<and> fst (studentService_createStudent example_host forgetful_api bob_draft [alice_row]) = Inl example_404
   \<and> fst (createStudent example_host forgetful_api bob_draft
        (\<lparr>students = [alice], recentLookup = Some carol, loading = False, error = None\<rparr>, [alice_row]))
      = \<lparr>students = [alice], recentLookup = Some carol, loading = False,
          error = Some ''Request failed with status code 404''\<rparr>
   \<and> fst (studentService_updateStudent example_host example_api ''9'' bob_draft [alice_row]) = Inl example_404
   \<and> fst (updateStudent example_host example_api ''9'' bob_draft
        (\<lparr>students = [alice, bob], recentLookup = Some carol, loading = False, error = None\<rparr>, [alice_row]))
      = \<lparr>students = [alice, bob], recentLookup = Some carol, loading = False,
          error = Some ''Request failed with status code 404''\<rparr>
   \<and> fst (studentService_deleteStudent example_api ''9'' [alice_row]) = Inl example_404
   \<and> fst (deleteStudent example_api ''9''
        (\<lparr>students = [alice, bob], recentLookup = Some carol, loading = False, error = None\<rparr>, [alice_row]))
      = \<lparr>students = [alice, bob], recentLookup = Some carol, loading = False,
          error = Some ''Request failed with status code 404''\<rparr>"
proof -
  let ?s = "\<lparr>students = [alice, bob], recentLookup = Some carol, loading = False, error = None\<rparr>"
  let ?t = "\<lparr>students = [alice], recentLookup = Some carol, loading = False, error = None\<rparr>"
  have f1: "fst (studentService_getAllStudents example_host offline_api [alice_row]) = Inl (Error ''Network Error'')"
    by (simp add: studentService_getAllStudents_def offline_api_def)
  have f2: "fst (studentService_getStudentById example_host example_api ''9'' [alice_row]) = Inl example_404"
    by (simp add: studentService_getStudentById_def example_api_def alice_row_def toString_examples)
  have f3: "fst (studentService_createStudent example_host forgetful_api bob_draft [alice_row]) = Inl example_404"
    by (simp add: studentService_createStudent_def studentService_getStudentById_def
        forgetful_api_def example_api_def Let_def)
  have f4: "fst (studentService_updateStudent example_host example_api ''9'' bob_draft [alice_row]) = Inl example_404"
    by (simp add: studentService_updateStudent_def example_api_def alice_row_def toString_examples)
  have f5: "fst (studentService_deleteStudent example_api ''9'' [alice_row]) = Inl example_404"
    by (simp add: studentService_deleteStudent_def example_api_def alice_row_def toString_examples)
  note t1 = failed_request_sets_error_only [of example_host offline_api "[alice_row]" "Error ''Network Error''" ?s]
  note t2 = failed_request_sets_error_only [of example_host example_api "[alice_row]" example_404 ?s "''9''" bob_draft]
  note t3 = failed_request_sets_error_only [of example_host forgetful_api "[alice_row]" example_404 ?t "''9''" bob_draft]
  show ?thesis
    using f1 f2 f3 f4 f5 t1 t2 t3 by (simp add: rejectWithValue_def example_404_def)
qed

section \<open>Delete and the recent lookup\<close>

text \<open>
  C5. A delete, successful or not, leaves the recent lookup as it was. A successful
  \<^verbatim>\<open>delete(i)\<close> keeps exactly the elements whose identifier is not \<open>i\<close>; so with a recent
  lookup \<open>R\<close> and \<open>i\<close> its identifier, the recent lookup is still \<open>R\<close> and the list no
  longer contains \<open>R\<close>.
\<close>

theorem deleteStudent_keeps_recentLookup:
  assumes "s' = fst (deleteStudent a i (s, w))"
  shows "recentLookup s' = recentLookup s
    \<and> (fst (studentService_deleteStudent a i w) = Inr u \<longrightarrow>
          students s' = filter (\<lambda>x. id' x \<noteq> i) (students s)
          \<and> (\<forall>x \<in> set (students s'). id' x \<noteq> i)
          \<and> (\<forall>R. recentLookup s = Some R \<and> id' R = i \<longrightarrow>
                recentLookup s' = Some R \<and> R \<notin> set (students s')))"
proof -
  have rl: "recentLookup s' = recentLookup s"
    unfolding assms
    by (cases "studentService_deleteStudent a i w"; cases "fst (studentService_deleteStudent a i w)")
       (simp_all add: deleteStudent_def run_thunk_def deleteStudent_completion_def)
  have ok: "students s' = filter (\<lambda>x. id' x \<noteq> i) (students s)"
    if "fst (studentService_deleteStudent a i w) = Inr u"
    unfolding assms thunk_outcomes(9) [OF that] by simp
  show ?thesis using rl ok by auto
qed

text \<open>
  An instance: Bob is the recent lookup and is deleted.
\<close>

theorem deleteStudent_keeps_recentLookup_witness:
  "fst (studentService_deleteStudent example_api ''2'' [alice_row, bob_row]) = Inr ()
   \<and> fst (deleteStudent example_api ''2''
        (\<lparr>students = [alice, bob, carol], recentLookup = Some bob, loading = False, error = None\<rparr>,
         [alice_row, bob_row]))
      = \<lparr>students = [alice, carol], recentLookup = Some bob, loading = False, error = None\<rparr>
   \<and> bob \<notin> set [alice, carol]"
proof -
  let ?s = "\<lparr>students = [alice, bob, carol], recentLookup = Some bob, loading = False, error = None\<rparr>"
  have ok: "fst (studentService_deleteStudent example_api ''2'' [alice_row, bob_row]) = Inr ()"
    by (simp add: studentService_deleteStudent_def example_api_def alice_row_def bob_row_def toString_examples)
  have run: "fst (deleteStudent example_api ''2'' (?s, [alice_row, bob_row]))
      = \<lparr>students = [alice, carol], recentLookup = Some bob, loading = False, error = None\<rparr>"
    by (simp add: thunk_defs example_defs)
  note t = deleteStudent_keeps_recentLookup [OF refl, of example_api "''2''" ?s "[alice_row, bob_row]" "()"]
  have pre: "recentLookup ?s = Some bob \<and> id' bob = ''2''"
    by (simp add: bob_def)
  from t ok have "\<forall>R. recentLookup ?s = Some R \<and> id' R = ''2'' \<longrightarrow>
      recentLookup (fst (deleteStudent example_api ''2'' (?s, [alice_row, bob_row]))) = Some R
      \<and> R \<notin> set (students (fst (deleteStudent example_api ''2'' (?s, [alice_row, bob_row]))))"
    by blast
  with pre have "bob \<notin> set (students (fst (deleteStudent example_api ''2'' (?s, [alice_row, bob_row]))))"
    by blast
  then have "bob \<notin> set [alice, carol]"
    unfolding run by simp
  with ok run show ?thesis by blast
qed

section \<open>The filter is a conjunction\<close>

text \<open>
  C6, as stated, fails. A filter whose only defined field is a maximal age of 0 has one
  predicate present, an upper bound that Carol, aged 15, does not satisfy; the code lets
  her pass.
\<close>

theorem zero_maxAge_is_no_bound:
  "filterPredicate
     \<lparr>f_name = None, f_class = None, f_sex = None, f_minAge = None, f_maxAge = Some 0\<rparr> carol
   \<and> \<not> satisfies_present_predicates
     \<lparr>f_name = None, f_class = None, f_sex = None, f_minAge = None, f_maxAge = Some 0\<rparr> carol
   \<and> age carol = 15"
  by (simp add: filterPredicate_def nameMatch_def classMatch_def sexMatch_def ageMatch_def
      satisfies_present_predicates_def carol_def)

text \<open>
  C6, amended. A record passes the filter exactly when it satisfies every predicate that
  is present and not falsy (a name other than the empty string, a class or an age bound
  other than 0, a sex): the name as a substring without regard to case, the class and the
  sex exactly, the age within inclusive bounds, each bound on its own side. When no
  numeric field holds 0 this is the reading of the specification. Removing a predicate
  never removes a match. For the filter \<open>{name: "an", sex: female, minAge: 10, maxAge:
  20}\<close> a record passes exactly when its name contains "an" in any case, its sex is
  female and its age lies between 10 and 20.
\<close>

theorem filterPredicate_conjunctive:
  "(filterPredicate filters student \<longleftrightarrow>
      (\<forall>n. f_name filters = Some n \<and> n \<noteq> [] \<longrightarrow>
         (\<exists>p q. toLowerCase (name student) = p @ toLowerCase n @ q))
      \<and> (\<forall>c. f_class filters = Some c \<and> c \<noteq> 0 \<longrightarrow> class' student = c)
      \<and> (\<forall>x. f_sex filters = Some (sex_is x) \<longrightarrow> sex student = x)
      \<and> (\<forall>lo. f_minAge filters = Some lo \<and> lo \<noteq> 0 \<longrightarrow> lo \<le> age student)
      \<and> (\<forall>hi. f_maxAge filters = Some hi \<and> hi \<noteq> 0 \<longrightarrow> age student \<le> hi))
   \<and> (f_class filters \<noteq> Some 0 \<and> f_minAge filters \<noteq> Some 0 \<and> f_maxAge filters \<noteq> Some 0 \<longrightarrow>
        filterPredicate filters student = satisfies_present_predicates filters student)
   \<and> (filterPredicate filters student \<longrightarrow>
        filterPredicate (filters\<lparr>f_name := None\<rparr>) student
        \<and> filterPredicate (filters\<lparr>f_class := None\<rparr>) student
        \<and> filterPredicate (filters\<lparr>f_sex := None\<rparr>) student
        \<and> filterPredicate (filters\<lparr>f_minAge := None\<rparr>) student
        \<and> filterPredicate (filters\<lparr>f_maxAge := None\<rparr>) student)
   \<and> (filterPredicate
         \<lparr>f_name = Some ''an'', f_class = None, f_sex = Some (sex_is female),
          f_minAge = Some 10, f_maxAge = Some 20\<rparr> student
       \<longleftrightarrow> (\<exists>p q. toLowerCase (name student) = p @ ''an'' @ q) \<and> sex student = female
           \<and> 10 \<le> age student \<and> age student \<le> 20)"
proof (intro conjI)
  show "filterPredicate filters student \<longleftrightarrow>
      (\<forall>n. f_name filters = Some n \<and> n \<noteq> [] \<longrightarrow>
         (\<exists>p q. toLowerCase (name student) = p @ toLowerCase n @ q))
      \<and> (\<forall>c. f_class filters = Some c \<and> c \<noteq> 0 \<longrightarrow> class' student = c)
      \<and> (\<forall>x. f_sex filters = Some (sex_is x) \<longrightarrow> sex student = x)
      \<and> (\<forall>lo. f_minAge filters = Some lo \<and> lo \<noteq> 0 \<longrightarrow> lo \<le> age student)
      \<and> (\<forall>hi. f_maxAge filters = Some hi \<and> hi \<noteq> 0 \<longrightarrow> age student \<le> hi)"
    unfolding filterPredicate_def nameMatch_iff classMatch_iff sexMatch_iff ageMatch_iff
    by (rule refl)
next
  show "f_class filters \<noteq> Some 0 \<and> f_minAge filters \<noteq> Some 0 \<and> f_maxAge filters \<noteq> Some 0 \<longrightarrow>
        filterPredicate filters student = satisfies_present_predicates filters student"
    by (auto simp: filterPredicate_def nameMatch_def classMatch_def sexMatch_def ageMatch_def
        satisfies_present_predicates_def String_includes_def toLowerCase_Nil
        split: option.splits sex_filter.splits)
next
  show "filterPredicate filters student \<longrightarrow>
        filterPredicate (filters\<lparr>f_name := None\<rparr>) student
        \<and> filterPredicate (filters\<lparr>f_class := None\<rparr>) student
        \<and> filterPredicate (filters\<lparr>f_sex := None\<rparr>) student
        \<and> filterPredicate (filters\<lparr>f_minAge := None\<rparr>) student
        \<and> filterPredicate (filters\<lparr>f_maxAge := None\<rparr>) student"
    by (simp add: filterPredicate_def nameMatch_def classMatch_def sexMatch_def ageMatch_def)
next
  show "filterPredicate
         \<lparr>f_name = Some ''an'', f_class = None, f_sex = Some (sex_is female),
          f_minAge = Some 10, f_maxAge = Some 20\<rparr> student
       \<longleftrightarrow> (\<exists>p q. toLowerCase (name student) = p @ ''an'' @ q) \<and> sex student = female
           \<and> 10 \<le> age student \<and> age student \<le> 20"
    by (simp add: filterPredicate_def nameMatch_def classMatch_def sexMatch_def ageMatch_def
        String_includes_iff toLowerCase_an)
qed

text \<open>
  An instance: Joanna, female and aged 11, against the name filter "AN".
\<close>

theorem filterPredicate_conjunctive_witness:
  "filterPredicate
     \<lparr>f_name = Some ''AN'', f_class = None, f_sex = Some (sex_is female),
      f_minAge = Some 10, f_maxAge = Some 20\<rparr> (alice\<lparr>name := ''Joanna''\<rparr>)
   \<and> filterPredicate
     \<lparr>f_name = None, f_class = None, f_sex = Some (sex_is female),
      f_minAge = Some 10, f_maxAge = Some 20\<rparr> (alice\<lparr>name := ''Joanna''\<rparr>)
   \<and> toLowerCase ''Joanna'' = ''jo'' @ toLowerCase ''AN'' @ ''na''
   \<and> age (alice\<lparr>name := ''Joanna''\<rparr>) = 11
   \<and> satisfies_present_predicates
     \<lparr>f_name = Some ''AN'', f_class = None, f_sex = Some (sex_is female),
      f_minAge = Some 10, f_maxAge = Some 20\<rparr> (alice\<lparr>name := ''Joanna''\<rparr>)"
proof -
  let ?f = "\<lparr>f_name = Some ''AN'', f_class = None, f_sex = Some (sex_is female),
      f_minAge = Some 10, f_maxAge = Some 20\<rparr>"
  let ?st = "alice\<lparr>name := ''Joanna''\<rparr>"
  note t = filterPredicate_conjunctive [of ?f ?st]
  have lower: "toLowerCase ''Joanna'' = ''jo'' @ toLowerCase ''AN'' @ ''na''"
    by (simp add: toLowerCase_examples)
  have "\<forall>n. f_name ?f = Some n \<and> n \<noteq> [] \<longrightarrow>
         (\<exists>p q. toLowerCase (name ?st) = p @ toLowerCase n @ q)"
    using lower by (auto simp del: append.simps)
  moreover have "\<forall>c. f_class ?f = Some c \<and> c \<noteq> 0 \<longrightarrow> class' ?st = c" by simp
  moreover have "\<forall>x. f_sex ?f = Some (sex_is x) \<longrightarrow> sex ?st = x" by (simp add: alice_def)
  moreover have "\<forall>lo. f_minAge ?f = Some lo \<and> lo \<noteq> 0 \<longrightarrow> lo \<le> age ?st" by (simp add: alice_def)
  moreover have "\<forall>hi. f_maxAge ?f = Some hi \<and> hi \<noteq> 0 \<longrightarrow> age ?st \<le> hi" by (simp add: alice_def)
  ultimately have pass: "filterPredicate ?f ?st"
    using t by blast
  have nz: "f_class ?f \<noteq> Some 0 \<and> f_minAge ?f \<noteq> Some 0 \<and> f_maxAge ?f \<noteq> Some 0" by simp
  have spec: "satisfies_present_predicates ?f ?st"
    using t nz pass by blast
  have less: "filterPredicate (?f\<lparr>f_name := None\<rparr>) ?st"
    using t pass by blast
  have a: "age ?st = 11" by (simp add: alice_def)
  show ?thesis using pass less lower a spec by simp
qed

section \<open>The sort toggle\<close>

text \<open>
  C7. Requesting a sort on key \<open>K\<close> gives \<open>{K, desc}\<close> when the current key is \<open>K\<close> and the
  direction is ascending; in every other case it gives \<open>{K, asc}\<close>: a descending sort on
  the same key flips back to ascending, a new key resets to ascending. From \<open>{age, asc}\<close>,
  a request for age gives \<open>{age, desc}\<close>, and a request for name next gives
  \<open>{name, asc}\<close>.
\<close>

theorem handleSort_toggle:
  "handleSort \<lparr>key = K, direction = asc\<rparr> K = \<lparr>key = K, direction = desc\<rparr>
   \<and> handleSort \<lparr>key = K, direction = desc\<rparr> K = \<lparr>key = K, direction = asc\<rparr>
   \<and> (K' \<noteq> K \<longrightarrow> handleSort \<lparr>key = K', direction = d\<rparr> K = \<lparr>key = K, direction = asc\<rparr>)
   \<and> handleSort \<lparr>key = key_age, direction = asc\<rparr> key_age = \<lparr>key = key_age, direction = desc\<rparr>
   \<and> handleSort (handleSort \<lparr>key = key_age, direction = asc\<rparr> key_age) key_name
       = \<lparr>key = key_name, direction = asc\<rparr>"
  by (simp add: handleSort_def)

text \<open>
  An instance: from \<open>{age, desc}\<close>, a request for name.
\<close>

theorem handleSort_toggle_witness:
  "key_age \<noteq> key_name
   \<and> handleSort \<lparr>key = key_age, direction = desc\<rparr> key_name = \<lparr>key = key_name, direction = asc\<rparr>
   \<and> handleSort \<lparr>key = key_name, direction = asc\<rparr> key_name = \<lparr>key = key_name, direction = desc\<rparr>"
  using handleSort_toggle [of key_name key_age desc] by simp

section \<open>The sort comparator\<close>

text \<open>
  C8. Under the key \<^verbatim>\<open>gpa\<close> the comparator is the host's collation of the two GPA strings
  (a GPA is a string as soon as it leaves the transform layer), with the arguments
  swapped when descending; under \<^verbatim>\<open>class\<close>, \<^verbatim>\<open>age\<close> and \<^verbatim>\<open>siblings\<close> it is the difference
  of the two numbers, negated when descending. For every key, descending is ascending
  with the arguments swapped, which reverses the sign as soon as the collation is
  antisymmetric.
\<close>

theorem gpa_sorted_as_text:
  "compareStudents h \<lparr>key = key_gpa, direction = asc\<rparr> a b = localeCompare h (gpa a) (gpa b)
   \<and> compareStudents h \<lparr>key = key_gpa, direction = desc\<rparr> a b = localeCompare h (gpa b) (gpa a)
   \<and> gpa (transformStudentFromBackend h r) = String_of h (w_gpa r)
   \<and> compareStudents h \<lparr>key = key_class, direction = asc\<rparr> a b = class' a - class' b
   \<and> compareStudents h \<lparr>key = key_age, direction = asc\<rparr> a b = age a - age b
   \<and> compareStudents h \<lparr>key = key_siblings, direction = asc\<rparr> a b = siblings a - siblings b
   \<and> (k = key_class \<or> k = key_age \<or> k = key_siblings \<longrightarrow>
        compareStudents h \<lparr>key = k, direction = desc\<rparr> a b
          = - compareStudents h \<lparr>key = k, direction = asc\<rparr> a b)
   \<and> compareStudents h \<lparr>key = k, direction = desc\<rparr> a b
        = compareStudents h \<lparr>key = k, direction = asc\<rparr> b a
   \<and> ((\<forall>x y. sgn (localeCompare h y x) = - sgn (localeCompare h x y)) \<longrightarrow>
        sgn (compareStudents h \<lparr>key = k, direction = desc\<rparr> a b)
          = - sgn (compareStudents h \<lparr>key = k, direction = asc\<rparr> a b))"
proof (intro conjI impI)
  show "compareStudents h \<lparr>key = k, direction = desc\<rparr> a b
        = compareStudents h \<lparr>key = k, direction = asc\<rparr> b a"
    by (cases k) (simp_all add: compareStudents_def field_of_def)
next
  assume anti: "\<forall>x y. sgn (localeCompare h y x) = - sgn (localeCompare h x y)"
  have num: "sgn (y - x) = - sgn (x - y)" for x y :: int
    by (simp add: sgn_if)
  show "sgn (compareStudents h \<lparr>key = k, direction = desc\<rparr> a b)
          = - sgn (compareStudents h \<lparr>key = k, direction = asc\<rparr> a b)"
  proof (cases k)
    case key_id
    then show ?thesis using anti [rule_format, of "id' a" "id' b"]
      by (simp add: compareStudents_def field_of_def)
  next
    case key_name
    then show ?thesis using anti [rule_format, of "name a" "name b"]
      by (simp add: compareStudents_def field_of_def)
  next
    case key_class
    then show ?thesis using num [of "class' a" "class' b"]
      by (simp add: compareStudents_def field_of_def)
  next
    case key_sex
    then show ?thesis using anti [rule_format, of "sex_string (sex a)" "sex_string (sex b)"]
      by (simp add: compareStudents_def field_of_def)
  next
    case key_age
    then show ?thesis using num [of "age a" "age b"]
      by (simp add: compareStudents_def field_of_def)
  next
    case key_siblings
    then show ?thesis using num [of "siblings a" "siblings b"]
      by (simp add: compareStudents_def field_of_def)
  next
    case key_gpa
    then show ?thesis using anti [rule_format, of "gpa a" "gpa b"]
      by (simp add: compareStudents_def field_of_def)
  qed
qed (auto simp: compareStudents_def field_of_def transformStudentFromBackend_def)

text \<open>
  An instance: "10.0" sorts before "9.5" as text, although 9.5 is the smaller number;
  by age, the order is numeric.
\<close>

theorem gpa_sorted_as_text_witness:
  "(\<forall>x y. sgn (localeCompare example_host y x) = - sgn (localeCompare example_host x y))
   \<and> gpa carol = ''10.0'' \<and> gpa nine = ''9.5''
   \<and> js_less (parseFloat (gpa nine)) (parseFloat (gpa carol))
   \<and> compareStudents example_host \<lparr>key = key_gpa, direction = asc\<rparr> carol nine = - 1
   \<and> compareStudents example_host \<lparr>key = key_gpa, direction = desc\<rparr> carol nine = 1
   \<and> compareStudents example_host \<lparr>key = key_age, direction = asc\<rparr> carol nine = 1
   \<and> compareStudents example_host \<lparr>key = key_age, direction = desc\<rparr> carol nine = - 1
   \<and> filteredAndSortedStudents example_host [nine, carol] initialFilters
        \<lparr>key = key_gpa, direction = asc\<rparr> = [carol, nine]
   \<and> filteredAndSortedStudents example_host [nine, carol] initialFilters
        \<lparr>key = key_gpa, direction = desc\<rparr> = [nine, carol]"
proof -
  note t = gpa_sorted_as_text [of example_host carol nine _ key_age]
  have anti: "\<forall>x y. sgn (localeCompare example_host y x) = - sgn (localeCompare example_host x y)"
  proof (intro allI)
    fix x y
    have "sgn (compare_codes y x) = sgn (- compare_codes x y)"
      using compare_codes_swap [of y x] by presburger
    then show "sgn (localeCompare example_host y x) = - sgn (localeCompare example_host x y)"
      by (simp add: example_host_def sgn_minus)
  qed
  have g1: "compareStudents example_host \<lparr>key = key_gpa, direction = asc\<rparr> carol nine = - 1"
    using t by (simp add: example_host_def carol_def nine_def)
  have g2: "compareStudents example_host \<lparr>key = key_gpa, direction = desc\<rparr> carol nine = 1"
    using t by (simp add: example_host_def carol_def nine_def)
  have a1: "compareStudents example_host \<lparr>key = key_age, direction = asc\<rparr> carol nine = 1"
    using t by (simp add: carol_def nine_def)
  have a2: "compareStudents example_host \<lparr>key = key_age, direction = desc\<rparr> carol nine = - 1"
    using t a1 by simp
  have g3: "compareStudents example_host \<lparr>key = key_gpa, direction = asc\<rparr> nine carol = 1"
    using gpa_sorted_as_text [of example_host nine carol _ key_age] by (simp add: example_host_def carol_def nine_def)
  have g4: "compareStudents example_host \<lparr>key = key_gpa, direction = desc\<rparr> nine carol = - 1"
    using gpa_sorted_as_text [of example_host nine carol _ key_age] by (simp add: example_host_def carol_def nine_def)
  have pass: "filter (filterPredicate initialFilters) [nine, carol] = [nine, carol]"
    by (simp add: filterPredicate_def nameMatch_def classMatch_def sexMatch_def ageMatch_def
        initialFilters_def)
  have s1: "filteredAndSortedStudents example_host [nine, carol] initialFilters
        \<lparr>key = key_gpa, direction = asc\<rparr> = [carol, nine]"
    unfolding filteredAndSortedStudents_def pass by (simp add: Array_sort_def g1 g3)
  have s2: "filteredAndSortedStudents example_host [nine, carol] initialFilters
        \<lparr>key = key_gpa, direction = desc\<rparr> = [nine, carol]"
    unfolding filteredAndSortedStudents_def pass by (simp add: Array_sort_def g2 g4)
  have num: "js_less (parseFloat (gpa nine)) (parseFloat (gpa carol))"
    by (simp add: carol_def nine_def parseFloat_examples)
  have gc: "gpa carol = ''10.0''" and gn: "gpa nine = ''9.5''"
    by (simp_all add: carol_def nine_def)
  show ?thesis
    by (intro conjI) (rule anti gc gn num g1 g2 a1 a2 s1 s2)+
qed

section \<open>Validation of the form\<close>

text \<open>
  C9, on the input where the code departs from it. The GPA "7.5xyz" is not a numeric
  string, yet \<^verbatim>\<open>validateForm\<close> accepts the draft: \<^verbatim>\<open>parseFloat\<close> reads the prefix 7.5 and
  ignores the rest. The draft is submitted, and the store receives the GPA 7.5. A GPA
  with no numeric prefix is rejected, and nothing is submitted.
\<close>

theorem gpa_with_trailing_text_passes_validation:
  "\<not> numeric_string ''7.5xyz''
   \<and> validateForm (bob_draft\<lparr>gpa := ''7.5xyz''\<rparr>)
   \<and> handleSubmit (handleFormSubmit example_host example_api None)
        (bob_draft\<lparr>gpa := ''7.5xyz''\<rparr>) (initialState, [])
     = (\<lparr>students = [bob\<lparr>gpa := ''7.5'', id' := ''1''\<rparr>], recentLookup = None,
          loading = False, error = None\<rparr>,
        [bob_row\<lparr>uuid := 1, w_gpa := GpaNumber (Fin (15 / 2))\<rparr>])
   \<and> \<not> validateForm (bob_draft\<lparr>gpa := ''xyz''\<rparr>)
   \<and> handleSubmit (handleFormSubmit example_host example_api None)
        (bob_draft\<lparr>gpa := ''xyz''\<rparr>) (initialState, [])
     = (initialState, [])"
proof -
  have v: "validateForm (bob_draft\<lparr>gpa := ''7.5xyz''\<rparr>)"
    by (simp add: validateForm_iff bob_draft_def trim_examples parseFloat_examples)
  have nv: "\<not> validateForm (bob_draft\<lparr>gpa := ''xyz''\<rparr>)"
    by (simp add: validateForm_iff bob_draft_def trim_examples parseFloat_examples)
  have run: "handleFormSubmit example_host example_api None
        (bob_draft\<lparr>gpa := ''7.5xyz''\<rparr>) (initialState, [])
     = (\<lparr>students = [bob\<lparr>gpa := ''7.5'', id' := ''1''\<rparr>], recentLookup = None,
          loading = False, error = None\<rparr>,
        [bob_row\<lparr>uuid := 1, w_gpa := GpaNumber (Fin (15 / 2))\<rparr>])"
    by (simp add: handleFormSubmit_def thunk_defs example_defs)
  show ?thesis
    using v nv run by (simp add: handleSubmit_def numeric_string_examples)
qed

section \<open>Falsy filter fields\<close>

text \<open>
  C10. A filter field that holds the empty string (name, sex) or the number 0 (class,
  minimal age, maximal age) filters as the same field undefined. A maximal age of 0 on
  its own lets every record pass, and so does a minimal age of 0; so does the filter with
  all five fields falsy.
\<close>

theorem falsy_filter_field_is_absent:
  "filterPredicate (filters\<lparr>f_name := Some []\<rparr>) student
     = filterPredicate (filters\<lparr>f_name := None\<rparr>) student
   \<and> filterPredicate (filters\<lparr>f_sex := Some sex_empty\<rparr>) student
     = filterPredicate (filters\<lparr>f_sex := None\<rparr>) student
   \<and> filterPredicate (filters\<lparr>f_class := Some 0\<rparr>) student
     = filterPredicate (filters\<lparr>f_class := None\<rparr>) student
   \<and> filterPredicate (filters\<lparr>f_minAge := Some 0\<rparr>) student
     = filterPredicate (filters\<lparr>f_minAge := None\<rparr>) student
   \<and> filterPredicate (filters\<lparr>f_maxAge := Some 0\<rparr>) student
     = filterPredicate (filters\<lparr>f_maxAge := None\<rparr>) student
   \<and> ageMatch (filters\<lparr>f_minAge := None, f_maxAge := Some 0\<rparr>) student
   \<and> ageMatch (filters\<lparr>f_minAge := Some 0, f_maxAge := None\<rparr>) student
   \<and> filterPredicate
        \<lparr>f_name = Some [], f_class = Some 0, f_sex = Some sex_empty,
         f_minAge = Some 0, f_maxAge = Some 0\<rparr> student"
  by (simp add: filterPredicate_def nameMatch_def classMatch_def sexMatch_def ageMatch_def)

text \<open>
  An instance: the filter with all five fields falsy shows the whole list.
\<close>

theorem falsy_filter_field_is_absent_witness:
  "filteredAndSortedStudents example_host [alice, bob, carol]
     \<lparr>f_name = Some [], f_class = Some 0, f_sex = Some sex_empty,
      f_minAge = Some 0, f_maxAge = Some 0\<rparr> \<lparr>key = key_name, direction = asc\<rparr>
   = [alice, bob, carol]"
  using falsy_filter_field_is_absent [of initialFilters alice]
    falsy_filter_field_is_absent [of initialFilters bob]
    falsy_filter_field_is_absent [of initialFilters carol]
  by (simp add: filteredAndSortedStudents_def Array_sort_def compareStudents_def field_of_def
      example_host_def alice_def bob_def carol_def)

end
